theory Spec2Isabelle
  imports Main
begin

section \<open>JavaScript strings\<close>

text \<open>
  A JavaScript string is modelled as a \<^typ>\<open>string\<close>: one \<^typ>\<open>char\<close> per UTF-16 code
  unit, for code units below 256. A value of type \<open>string | undefined\<close> is a
  \<^typ>\<open>string option\<close>; it is falsy when it is \<open>None\<close> or the empty string.
\<close>

definition truthy :: "string option \<Rightarrow> bool" where
  "truthy s = (case s of None \<Rightarrow> False | Some t \<Rightarrow> t \<noteq> [])"

text \<open>\<open>s || ''\<close> on a \<open>string | undefined\<close>.\<close>

definition orEmpty :: "string option \<Rightarrow> string" where
  "orEmpty s = (case s of None \<Rightarrow> [] | Some t \<Rightarrow> t)"

text \<open>\<open>s.startsWith(p)\<close>\<close>

fun startsWith :: "string \<Rightarrow> string \<Rightarrow> bool" where
  "startsWith s [] = True"
| "startsWith [] (p # ps) = False"
| "startsWith (c # cs) (p # ps) = (c = p \<and> startsWith cs ps)"

text \<open>\<open>s.indexOf(p)\<close>: the first position where \<open>p\<close> occurs, \<open>None\<close> for \<open>-1\<close>.\<close>

fun indexOf :: "string \<Rightarrow> string \<Rightarrow> nat option" where
  "indexOf [] p = (if p = [] then Some 0 else None)"
| "indexOf (c # cs) p =
     (if startsWith (c # cs) p then Some 0 else map_option Suc (indexOf cs p))"

text \<open>\<open>s.includes(p)\<close>\<close>

definition str_includes :: "string \<Rightarrow> string \<Rightarrow> bool" where
  "str_includes s p = (indexOf s p \<noteq> None)"

text \<open>
  \<open>s.substring(a, b)\<close> for non-negative arguments: both are clamped to the length
  and swapped when \<open>a > b\<close>.
\<close>

definition substring :: "string \<Rightarrow> nat \<Rightarrow> nat \<Rightarrow> string" where
  "substring s a b =
     (let a' = min a (length s); b' = min b (length s);
          lo = min a' b'; hi = max a' b'
      in take (hi - lo) (drop lo s))"

text \<open>
  White space as \<open>trim\<close> and the regular-expression class \<open>\s\<close> see it, among the
  code units below 256: tab, line feed, vertical tab, form feed, carriage return,
  space and the no-break space.
\<close>

definition isSpace :: "char \<Rightarrow> bool" where
  "isSpace c = ((of_char c :: nat) \<in> {9, 10, 11, 12, 13, 32, 160})"

text \<open>\<open>s.trim()\<close>\<close>

definition trim :: "string \<Rightarrow> string" where
  "trim s = rev (dropWhile isSpace (rev (dropWhile isSpace s)))"

text \<open>
  \<open>s.toLowerCase()\<close>: among the code units below 256, the capitals \<open>A\<close> to \<open>Z\<close> and the
  Latin-1 capitals 0xC0 to 0xDE, the multiplication sign 0xD7 apart, move up by 32; the
  others are kept.
\<close>

definition lowerChar :: "char \<Rightarrow> char" where
  "lowerChar c =
     (let n = (of_char c :: nat)
      in if (65 \<le> n \<and> n \<le> 90) \<or> (192 \<le> n \<and> n \<le> 222 \<and> n \<noteq> 215)
         then char_of (n + 32) else c)"

definition toLowerCase :: "string \<Rightarrow> string" where
  "toLowerCase s = map lowerChar s"

text \<open>
  \<open>s.replace(pat, rep)\<close> with a string pattern: the first occurrence only. The
  replacement is taken literally (the callers pass replacements without \<open>$\<close>).
\<close>

definition replaceFirst :: "string \<Rightarrow> string \<Rightarrow> string \<Rightarrow> string" where
  "replaceFirst pat rep s =
     (case indexOf s pat of
        None \<Rightarrow> s
      | Some i \<Rightarrow> take i s @ rep @ drop (i + length pat) s)"

text \<open>\<open>s.split(d)\<close> for a one-character separator.\<close>

fun splitOn :: "char \<Rightarrow> string \<Rightarrow> string list" where
  "splitOn d [] = [[]]"
| "splitOn d (c # cs) =
     (if c = d then [] # splitOn d cs
      else (case splitOn d cs of [] \<Rightarrow> [[c]] | w # ws \<Rightarrow> (c # w) # ws))"

section \<open>Thrown values\<close>

text \<open>
  What a rejected promise carries: an \<open>Error\<close> object with its message, or any other
  value with its \<open>String(e)\<close> rendering.
\<close>

datatype thrown = JsError string | NonError string

text \<open>\<open>e instanceof Error ? e.message : String(e)\<close>\<close>

fun messageOf :: "thrown \<Rightarrow> string" where
  "messageOf (JsError m) = m"
| "messageOf (NonError s) = s"

section \<open>utils/errors.ts\<close>

datatype error_type = Deployment | Authentication | Configuration | ApiLimit | Unknown

record actionable_error =
  ae_type :: error_type
  ae_message :: string
  suggestion :: string
  actionItems :: "string list"
  helpUrl :: "string option"
  retryable :: bool

definition handleVercel :: "thrown \<Rightarrow> actionable_error" where
  "handleVercel e =
     (let message = messageOf e in
      if str_includes (toLowerCase message) ''project not found'' then
        \<lparr>ae_type = Configuration, ae_message = message,
         suggestion = ''Check VERCEL_PROJECT_ID and VERCEL_ORG_ID secrets match your Vercel project.'',
         actionItems = [''Verify VERCEL_PROJECT_ID exists in Vercel dashboard.'',
                        ''Confirm VERCEL_ORG_ID is the correct team/org.'',
                        ''Ensure VERCEL_TOKEN has access to the project.''],
         helpUrl = Some ''https://vercel.com/docs/concepts/projects/overview#project-id'',
         retryable = False\<rparr>
      else if str_includes (toLowerCase message) ''rate limit'' then
        \<lparr>ae_type = ApiLimit, ae_message = message,
         suggestion = ''Wait before retrying or reduce deployment frequency.'',
         actionItems = [''Wait 10-15 minutes and retry.'',
                        ''Enable only_if_changed gating to avoid unnecessary deploys.''],
         helpUrl = None,
         retryable = True\<rparr>
      else if str_includes (toLowerCase message) ''build failed'' then
        \<lparr>ae_type = Deployment, ae_message = message,
         suggestion = ''Inspect Vercel build logs and validate your build locally.'',
         actionItems = [''Check Vercel build logs for errors.'',
                        ''Run local build: `pnpm -C .docs run build` or project-specific build.'',
                        ''Ensure required env vars are present in Vercel.''],
         helpUrl = None,
         retryable = True\<rparr>
      else
        \<lparr>ae_type = Unknown, ae_message = message,
         suggestion = ''Review error details and verify deployment configuration.'',
         actionItems = [''Check repository secrets'', ''Re-run with debug_mode: true''],
         helpUrl = None,
         retryable = True\<rparr>)"

text \<open>
  The lines written through \<open>@actions/core\<close>. A line built from a template with
  numbers in it keeps the numbers as they are: \<open>RetryFailure attempt maxRetries message\<close>
  is \<open>core.error(`Failure after ${attempt}/${maxRetries} attempts: ${message}`)\<close> and
  \<open>Retrying delayMs attempt maxRetries\<close> is
  \<open>core.info(`Retrying in ${delayMs}ms (attempt ${attempt}/${maxRetries})`)\<close>.
\<close>

datatype core_line =
    CoreError string
  | CoreWarning string
  | CoreInfo string
  | CoreDebug string
  | CoreSetFailed string
  | CoreSetOutput string "string option"
  | RetryFailure int int string
  | Retrying int int int

text \<open>
  \<open>options: number | RetryOptions\<close>. The numbers of a run are whole, so they are
  integers here. The injected \<open>sleep\<close> only waits: the model records each delay.
\<close>

record retry_options =
  maxRetries :: "int option"
  backoffBaseMs :: "int option"
  maxDelayMs :: "int option"

datatype retry_arg = Count int | Opts retry_options

text \<open>
  The operation is a step on a state of its own, so that each call may answer
  differently: \<open>Inl\<close> a rejection, \<open>Inr\<close> the resolved value. A run counts its calls
  of the operation, the delays it slept and the lines it logged.
\<close>

record 's retry_run =
  opState :: 's
  attempts :: nat
  slept :: "int list"
  logged :: "core_line list"

function retryLoop ::
  "('s \<Rightarrow> (thrown + 'a) \<times> 's) \<Rightarrow> (thrown \<Rightarrow> actionable_error) \<Rightarrow> int \<Rightarrow> int \<Rightarrow> int \<Rightarrow>
   int \<Rightarrow> actionable_error option \<Rightarrow> 's retry_run \<Rightarrow> (thrown + 'a) \<times> 's retry_run" where
  "retryLoop operation mapError maxR base maxDelay attempt lastErr r =
     (if attempt \<le> maxR then
        (case operation (opState r) of
           (Inr v, s') \<Rightarrow> (Inr v, r\<lparr>opState := s', attempts := Suc (attempts r)\<rparr>)
         | (Inl e, s') \<Rightarrow>
             (let l = mapError e;
                  r1 = r\<lparr>opState := s', attempts := Suc (attempts r)\<rparr>;
                  isLast = (attempt = maxR)
              in if \<not> retryable l \<or> isLast then
                   (Inl e,
                    r1\<lparr>logged := logged r1 @
                         [RetryFailure attempt maxR (ae_message l),
                          CoreError (''Suggestion: '' @ suggestion l)] @
                         map (\<lambda>item. CoreError (''- '' @ item)) (actionItems l)\<rparr>)
                 else
                   (let delayMs = min maxDelay (2 ^ nat attempt * base)
                    in retryLoop operation mapError maxR base maxDelay (attempt + 1) (Some l)
                         (r1\<lparr>logged := logged r1 @ [Retrying delayMs attempt maxR],
                             slept := slept r1 @ [delayMs]\<rparr>))))
      else
        (Inl (JsError (case lastErr of Some l \<Rightarrow> ae_message l | None \<Rightarrow> ''Unknown error'')), r))"
  by pat_completeness auto
termination
  by (relation "measure (\<lambda>(operation, mapError, maxR, base, maxDelay, attempt, lastErr, r).
                  nat (maxR + 1 - attempt))") auto

declare retryLoop.simps [simp del]

definition executeWithRetry ::
  "('s \<Rightarrow> (thrown + 'a) \<times> 's) \<Rightarrow> (thrown \<Rightarrow> actionable_error) \<Rightarrow> retry_arg \<Rightarrow> 's \<Rightarrow>
   (thrown + 'a) \<times> 's retry_run" where
  "executeWithRetry operation mapError options s =
     (let opts = (case options of
                    Count n \<Rightarrow> \<lparr>maxRetries = Some n, backoffBaseMs = None, maxDelayMs = None\<rparr>
                  | Opts ro \<Rightarrow> ro);
          maxR = (case maxRetries opts of Some n \<Rightarrow> n | None \<Rightarrow> 3);
          base = (case backoffBaseMs opts of Some n \<Rightarrow> n | None \<Rightarrow> 1000);
          maxDelay = (case maxDelayMs opts of Some n \<Rightarrow> n | None \<Rightarrow> 30000)
      in retryLoop operation mapError maxR base maxDelay 1 None
           \<lparr>opState = s, attempts = 0, slept = [], logged = []\<rparr>)"

section \<open>The workflow context\<close>

text \<open>
  The fields of \<open>github.context\<close> that the action reads. \<open>ctx_pullRequest\<close> is
  \<open>payload.pull_request\<close>, \<open>ctx_before\<close> is \<open>payload.before\<close>, and \<open>ctx_headRef\<close> is the
  \<open>head_ref\<close> that \<open>resolveBranch\<close> reads through a cast.
\<close>

record pull_request =
  pr_number :: "nat option"
  pr_baseRef :: "string option"

record gh_context =
  ctx_eventName :: string
  ctx_ref :: "string option"
  ctx_headRef :: "string option"
  ctx_sha :: string
  ctx_actor :: string
  ctx_before :: "string option"
  ctx_pullRequest :: "pull_request option"

section \<open>steps/changes.ts\<close>

definition parseCsv :: "string option \<Rightarrow> string list \<Rightarrow> string list" where
  "parseCsv input fallback =
     (case input of
        None \<Rightarrow> fallback
      | Some s \<Rightarrow>
          if s = [] then fallback
          else filter (\<lambda>t. t \<noteq> []) (map trim (splitOn CHR '','' s)))"

definition isPullRequestEvent :: "gh_context \<Rightarrow> bool" where
  "isPullRequestEvent ctx =
     (ctx_eventName ctx = ''pull_request'' \<or> ctx_eventName ctx = ''pull_request_target'')"

definition shouldDeployByPolicy :: "gh_context \<Rightarrow> string option \<Rightarrow> string option \<Rightarrow> bool" where
  "shouldDeployByPolicy ctx pushBranchesCsv prBaseBranchesCsv =
     (let isPR = isPullRequestEvent ctx;
          pushBranches = parseCsv pushBranchesCsv [''main'', ''canary''];
          prBaseBranches = parseCsv prBaseBranchesCsv [''main'', ''canary'']
      in if \<not> isPR then
           (let r = orEmpty (map_option (replaceFirst ''refs/heads/'' []) (ctx_ref ctx))
            in r \<in> set pushBranches)
         else
           (let baseRef = orEmpty (case ctx_pullRequest ctx of
                                     None \<Rightarrow> None
                                   | Some pr \<Rightarrow> pr_baseRef pr)
            in baseRef \<in> set prBaseBranches))"


text \<open>The backslash, which a string literal cannot hold.\<close>

definition bslash :: char where
  "bslash = CHR 0x5C"

text \<open>\<open>s.replace(/[.*+?^${}()|[\]\\]/g, '\\$&')\<close>\<close>

definition escapeRegex :: "string \<Rightarrow> string" where
  "escapeRegex s =
     concat (map (\<lambda>c. if c \<in> set (''.*+?^${}()|[]'' @ [bslash]) then [bslash, c] else [c]) s)"

text \<open>
  \<open>s.replace(/pat/g, rep)\<close> for a pattern that is one fixed text: every occurrence,
  from the left, without overlap.
\<close>

function replaceAll :: "string \<Rightarrow> string \<Rightarrow> string \<Rightarrow> string" where
  "replaceAll pat rep [] = []"
| "replaceAll pat rep (c # cs) =
     (if pat \<noteq> [] \<and> startsWith (c # cs) pat
      then rep @ replaceAll pat rep (drop (length pat) (c # cs))
      else c # replaceAll pat rep cs)"
  by pat_completeness auto
termination
  by (relation "measure (\<lambda>(pat, rep, s). length s)") auto

text \<open>
  \<open>globToRegex\<close> returns the source of the regular expression it builds, or the
  \<open>Error\<close> it throws.
\<close>

definition globToRegex :: "string \<Rightarrow> thrown + string" where
  "globToRegex glob =
     (if length glob > 1000 then Inl (JsError ''Glob pattern too long'')
      else if length (filter (\<lambda>c. c = CHR ''*'') glob) > 20
           then Inl (JsError ''Too many wildcards in glob pattern'')
      else
        (let escaped = replaceAll [bslash, CHR ''*''] ''[^/]*''
                         (replaceAll [bslash, CHR ''*'', bslash, CHR ''*''] ''.*''
                            (escapeRegex glob))
         in Inr (''^'' @ escaped @ ''$'')))"

text \<open>
  \<open>new RegExp(re, 'u').test(path)\<close> on the sources that \<open>globToRegex\<close> builds: between
  \<open>^\<close> and \<open>$\<close>, a character escaped with a backslash or standing for itself, \<open>.*\<close> (any
  run without a line terminator) and \<open>[^/]*\<close> (any run without a slash).
\<close>

datatype re_item = Lit char | AnyStar | NoSlashStar

function parseRe :: "string \<Rightarrow> re_item list" where
  "parseRe s =
     (if s = [] then []
      else if hd s = bslash \<and> 2 \<le> length s then Lit (s ! 1) # parseRe (drop 2 s)
      else if startsWith s ''.*'' then AnyStar # parseRe (drop 2 s)
      else if startsWith s ''[^/]*'' then NoSlashStar # parseRe (drop 5 s)
      else Lit (hd s) # parseRe (drop 1 s))"
  by pat_completeness auto
termination
  by (relation "measure length") auto

declare parseRe.simps [simp del]

definition isLineTerminator :: "char \<Rightarrow> bool" where
  "isLineTerminator c = ((of_char c :: nat) \<in> {10, 13})"

fun reMatch :: "re_item list \<Rightarrow> string \<Rightarrow> bool" where
  "reMatch [] s = (s = [])"
| "reMatch (Lit c # r) s = (case s of [] \<Rightarrow> False | d # ds \<Rightarrow> c = d \<and> reMatch r ds)"
| "reMatch (AnyStar # r) s =
     (reMatch r s \<or>
      (case s of [] \<Rightarrow> False | d # ds \<Rightarrow> \<not> isLineTerminator d \<and> reMatch (AnyStar # r) ds))"
| "reMatch (NoSlashStar # r) s =
     (reMatch r s \<or>
      (case s of [] \<Rightarrow> False | d # ds \<Rightarrow> d \<noteq> CHR ''/'' \<and> reMatch (NoSlashStar # r) ds))"

definition regexTest :: "string \<Rightarrow> string \<Rightarrow> bool" where
  "regexTest re path =
     (case re of
        [] \<Rightarrow> False
      | c # body \<Rightarrow>
          c = CHR ''^'' \<and> body \<noteq> [] \<and> last body = CHR ''$'' \<and>
          reMatch (parseRe (butlast body)) path)"

text \<open>
  \<open>minimatch\<close> wraps \<open>globToRegex\<close> in \<open>try\<close>/\<open>catch\<close>. Its result is written as a sum
  too, so that returning (\<open>Inr\<close>) and throwing (\<open>Inl\<close>) are told apart.
\<close>

definition minimatch :: "string \<Rightarrow> string \<Rightarrow> thrown + bool" where
  "minimatch path glob =
     (case globToRegex glob of
        Inl e \<Rightarrow> Inr False
      | Inr re \<Rightarrow> Inr (regexTest re path))"

text \<open>
  The two REST calls of change detection. \<open>listFiles n\<close> is
  \<open>octokit.paginate(octokit.rest.pulls.listFiles, {pull_number: n, ...})\<close> mapped to the
  file names of all pages; \<open>compareCommits basehead\<close> is \<open>res.data.files\<close> of
  \<open>compareCommitsWithBasehead\<close>, each entry with its \<open>filename\<close>. \<open>Inl\<close> is a rejection.
\<close>

record changes_api =
  listFiles :: "nat \<Rightarrow> thrown + string list"
  compareCommits :: "string \<Rightarrow> thrown + string option list option"

definition anyRelevant :: "string list \<Rightarrow> string list \<Rightarrow> bool" where
  "anyRelevant paths globs =
     list_ex (\<lambda>p. list_ex (\<lambda>g. minimatch p g = Inr True) globs) paths"

definition changeDetectionFailed :: "thrown \<Rightarrow> core_line" where
  "changeDetectionFailed e =
     CoreWarning (''change detection failed, proceeding with deploy: '' @ messageOf e)"

text \<open>
  The \<open>base\<close> of the push branch: \<open>payload.before\<close>, or the parent of the head commit
  when it is missing, empty or the all-zero sha.
\<close>

definition compareBase :: "gh_context \<Rightarrow> string" where
  "compareBase ctx =
     (case ctx_before ctx of
        None \<Rightarrow> ctx_sha ctx @ ''~1''
      | Some b \<Rightarrow>
          if b \<noteq> [] \<and> b \<noteq> ''0000000000000000000000000000000000000000''
          then b else ctx_sha ctx @ ''~1'')"

definition detectRelevantChanges ::
  "changes_api \<Rightarrow> gh_context \<Rightarrow> string list \<Rightarrow> bool \<times> core_line list" where
  "detectRelevantChanges api ctx globs =
     (if isPullRequestEvent ctx then
        (let number = (case ctx_pullRequest ctx of
                         None \<Rightarrow> 0
                       | Some pr \<Rightarrow> (case pr_number pr of None \<Rightarrow> 0 | Some n \<Rightarrow> n))
         in if number = 0 then (True, [])
            else (case listFiles api number of
                    Inl e \<Rightarrow> (True, [changeDetectionFailed e])
                  | Inr paths \<Rightarrow> (anyRelevant paths globs, [])))
      else
        (let base = compareBase ctx;
             head = ctx_sha ctx
         in case compareCommits api (base @ ''...'' @ head) of
              Inl e \<Rightarrow> (True, [changeDetectionFailed e])
            | Inr files \<Rightarrow>
                (let paths = (case files of None \<Rightarrow> [] | Some fs \<Rightarrow> map orEmpty fs)
                 in (anyRelevant paths globs, []))))"

section \<open>config/inputs.ts\<close>

text \<open>
  The inputs of the action that the modelled steps read, as \<open>inputs.ts\<close> exports
  them. \<open>appendInput\<close> is the export \<open>append\<close>.
\<close>

record inputs =
  pullRequestNumber :: "int option"
  header :: string
  appendInput :: bool
  hideDetails :: bool
  skipUnchanged :: bool
  ignoreEmpty :: bool
  authorLogin :: string
  vercelToken :: string
  vercelProjectId :: string
  vercelOrgId :: string
  vercelWorkingDirectory :: string
  vercelFramework :: string
  vercelTarget :: string
  canaryAlias :: string
  aliasOnBranch :: string
  aliasDomains :: "string list"
  vercelArgs :: string
  vercelScope :: string
  setupDocs :: bool
  consentGitToken :: string
  onlyIfChanged :: bool
  changeGlobs :: "string list"
  checkTemplateChanges :: bool
  deployOnPushBranches :: string
  deployOnPrBaseBranches :: string

section \<open>github/pr-comment.ts\<close>

definition headerKey :: "string \<Rightarrow> string" where
  "headerKey h =
     (let k = trim (if h = [] then ''c15t-docs-preview'' else h)
      in if k = [] then ''c15t-docs-preview'' else k)"

definition autoStart :: "string \<Rightarrow> string" where
  "autoStart h = ''<!-- c15t:'' @ headerKey h @ '':START -->''"

definition autoEnd :: "string \<Rightarrow> string" where
  "autoEnd h = ''<!-- c15t:'' @ headerKey h @ '':END -->''"

definition bodyWithHeader :: "string \<Rightarrow> string \<Rightarrow> string" where
  "bodyWithHeader body h = autoStart h @ ''\<newline>'' @ body @ ''\<newline>'' @ autoEnd h"

definition bodyWithoutHeader :: "string \<Rightarrow> string \<Rightarrow> string" where
  "bodyWithoutHeader body h =
     (let start = autoStart h; stop = autoEnd h
      in case (indexOf body start, indexOf body stop) of
           (Some i, Some j) \<Rightarrow> trim (substring body (i + length start) j)
         | _ \<Rightarrow> [])"

text \<open>A node of the comments connection: \<open>id author { login } isMinimized body\<close>.\<close>

record comment =
  cid :: string
  c_author :: "string option"
  c_isMinimized :: bool
  c_body :: string

text \<open>
  What GitHub holds: the login of the viewer, and for each pull request number the
  pages of its comments in the order the paginated query serves them (a page says
  \<open>hasNextPage\<close> exactly when another page follows).
\<close>

record github =
  viewerLogin :: string
  commentPages :: "int \<Rightarrow> comment list list"

text \<open>\<open>login.replace(/\[bot\]$/i, '')\<close>\<close>

definition stripBotSuffix :: "string \<Rightarrow> string" where
  "stripBotSuffix s =
     (let n = length s
      in if 5 \<le> n \<and> toLowerCase (drop (n - 5) s) = ''[bot]'' then take (n - 5) s else s)"

definition normalizeLogin :: "string option \<Rightarrow> string" where
  "normalizeLogin login = toLowerCase (trim (stripBotSuffix (orEmpty login)))"

definition isTarget :: "string \<Rightarrow> string \<Rightarrow> comment \<Rightarrow> bool" where
  "isTarget expectedLogin start node =
     (normalizeLogin (c_author node) = expectedLogin \<and>
      \<not> c_isMinimized node \<and>
      str_includes (c_body node) start)"

fun findInPages :: "(comment \<Rightarrow> bool) \<Rightarrow> comment list list \<Rightarrow> comment option" where
  "findInPages P [] = None"
| "findInPages P (nodes # later) =
     (case find P nodes of
        Some target \<Rightarrow> Some target
      | None \<Rightarrow> findInPages P later)"

definition findPreviousComment ::
  "github \<Rightarrow> int \<Rightarrow> string \<Rightarrow> string option \<Rightarrow> comment option" where
  "findPreviousComment gh number h login =
     (let start = autoStart h;
          expectedLogin = normalizeLogin (case login of
                                            None \<Rightarrow> Some (viewerLogin gh)
                                          | Some l \<Rightarrow> Some l)
      in findInPages (isTarget expectedLogin start) (commentPages gh number))"

text \<open>
  What a step asks GitHub to write. \<open>UpdateBody id body\<close> is the
  \<open>updateIssueComment\<close> mutation, \<open>CreateBody number body\<close> the REST
  \<open>issues.createComment\<close>; \<open>NoWrite\<close> is a return without a request.
\<close>

datatype comment_write = NoWrite | UpdateBody string string | CreateBody int string

definition updateComment ::
  "string \<Rightarrow> string \<Rightarrow> string \<Rightarrow> string option \<Rightarrow> comment_write \<times> core_line list" where
  "updateComment ident body h previousBody =
     (if body = [] \<and> \<not> truthy previousBody then
        (NoWrite, [CoreWarning ''Comment body cannot be blank''])
      else
        (let rawPreviousBody =
               (case previousBody of
                  None \<Rightarrow> []
                | Some p \<Rightarrow> if p = [] then [] else bodyWithoutHeader p h)
         in (UpdateBody ident
               (if truthy previousBody
                then bodyWithHeader (rawPreviousBody @ ''\<newline>'' @ body) h
                else bodyWithHeader body h),
             [])))"

definition createComment ::
  "int \<Rightarrow> string \<Rightarrow> string \<Rightarrow> string option \<Rightarrow> comment_write \<times> core_line list" where
  "createComment issue_number body h previousBody =
     (if body = [] \<and> \<not> truthy previousBody then
        (NoWrite, [CoreWarning ''Comment body cannot be blank''])
      else
        (let rawPreviousBody =
               (case previousBody of
                  None \<Rightarrow> []
                | Some p \<Rightarrow> if p = [] then [] else bodyWithoutHeader p h);
             composed =
               (if truthy previousBody
                then bodyWithHeader (rawPreviousBody @ ''\<newline>'' @ body) h
                else bodyWithHeader body h)
         in (CreateBody issue_number composed, [])))"

text \<open>
  \<open>getBodyOf\<close>. Its first argument stands for
  \<open>s.replace(/(<details.*?)\s*\bopen\b(.*>)/g, '$1$2')\<close>, the rewriting that the
  regular-expression engine does.
\<close>

definition getBodyOf ::
  "(string \<Rightarrow> string) \<Rightarrow> string option \<Rightarrow> bool \<Rightarrow> bool \<Rightarrow> string option" where
  "getBodyOf closeDetails previousBody app hide =
     (if \<not> app then None
      else if \<not> hide \<or> \<not> truthy previousBody then previousBody
      else map_option closeDetails previousBody)"

definition commentsEqual :: "string \<Rightarrow> string option \<Rightarrow> string \<Rightarrow> bool" where
  "commentsEqual body previous h =
     (let start = autoStart h; stop = autoEnd h;
          normalize = (\<lambda>s. case (indexOf s start, indexOf s stop) of
                              (Some i, Some j) \<Rightarrow> trim (substring s (i + length start) j)
                            | _ \<Rightarrow> s)
      in normalize body = normalize (orEmpty previous))"

section \<open>steps/comments.ts\<close>

definition AUTO_COMMENT_START :: string where
  "AUTO_COMMENT_START = ''<!-- This is an auto-generated comment: c15t docs preview -->''"

definition AUTO_COMMENT_END :: string where
  "AUTO_COMMENT_END = ''<!-- end of auto-generated comment: c15t docs preview -->''"

record ensure_options =
  appendOverride :: "bool option"
  hideDetailsOverride :: "bool option"

definition handleSkipUnchanged :: "inputs \<Rightarrow> string \<Rightarrow> string option \<Rightarrow> bool" where
  "handleSkipUnchanged inp effectiveBody previousBodyRaw =
     (skipUnchanged inp \<and>
      commentsEqual effectiveBody (Some (orEmpty previousBodyRaw)) (header inp))"

text \<open>
  The locals of \<open>ensureComment\<close>: the pull request number it queries, the comment that
  \<open>findPreviousComment\<close> gives it, and the append and hide-details settings after the
  overrides of its \<open>options\<close> argument.
\<close>

definition prNumberOf :: "inputs \<Rightarrow> int" where
  "prNumberOf inp = (case pullRequestNumber inp of Some n \<Rightarrow> n | None \<Rightarrow> 0)"

definition previousOf :: "inputs \<Rightarrow> github \<Rightarrow> comment option" where
  "previousOf inp gh =
     findPreviousComment gh (prNumberOf inp) (header inp)
       (if authorLogin inp = [] then None else Some (authorLogin inp))"

definition appendRequested :: "inputs \<Rightarrow> ensure_options option \<Rightarrow> bool" where
  "appendRequested inp options =
     (case options of
        None \<Rightarrow> appendInput inp
      | Some opt \<Rightarrow> (case appendOverride opt of Some b \<Rightarrow> b | None \<Rightarrow> appendInput inp))"

definition shouldHideDetails :: "inputs \<Rightarrow> ensure_options option \<Rightarrow> bool" where
  "shouldHideDetails inp options =
     (case options of
        None \<Rightarrow> hideDetails inp
      | Some opt \<Rightarrow> (case hideDetailsOverride opt of Some b \<Rightarrow> b | None \<Rightarrow> hideDetails inp))"

definition previousHasAutoBlock :: "string \<Rightarrow> bool" where
  "previousHasAutoBlock body =
     (str_includes body AUTO_COMMENT_START \<and> str_includes body AUTO_COMMENT_END)"

text \<open>
  \<open>ensureComment\<close>: \<open>Inl\<close> is the error of \<open>requireEffectiveBodyOrThrow\<close>; otherwise the
  write it asks for and the lines it logs. The \<open>id\<close> of a created comment, which the
  REST answer gives, is not part of the model: its output line carries \<open>None\<close>.
\<close>

definition ensureComment ::
  "(string \<Rightarrow> string) \<Rightarrow> inputs \<Rightarrow> github \<Rightarrow> string \<Rightarrow> ensure_options option \<Rightarrow>
   thrown + comment_write \<times> core_line list" where
  "ensureComment closeDetails inp gh effectiveBody options =
     (if effectiveBody = [] \<and> ignoreEmpty inp then
        Inr (NoWrite, [CoreInfo ''no body given: skip step by ignoreEmpty''])
      else if effectiveBody = [] then
        Inl (JsError ''Either message/path input is required or Vercel inputs must be set'')
      else
        (let previous = previousOf inp gh;
             out1 = [CoreSetOutput ''previous_comment_id'' (map_option cid previous)]
         in case previous of
              None \<Rightarrow>
                (let (w, ls) = createComment (prNumberOf inp) effectiveBody (header inp) None
                 in Inr (w, out1 @ ls @ [CoreSetOutput ''created_comment_id'' None]))
            | Some prev \<Rightarrow>
                if handleSkipUnchanged inp effectiveBody (Some (c_body prev)) then
                  Inr (NoWrite, out1)
                else
                  (let shouldAppend =
                         (if appendRequested inp options \<and> \<not> previousHasAutoBlock (c_body prev)
                          then False else appendRequested inp options);
                       previousBody = getBodyOf closeDetails (Some (c_body prev))
                                        shouldAppend (shouldHideDetails inp options)
                   in if cid prev = [] then Inr (NoWrite, out1)
                      else
                        (let (w, ls) = updateComment (cid prev) effectiveBody (header inp)
                                         previousBody
                         in Inr (w, out1 @ ls)))))"

text \<open>
  GitHub's side of an update: the comment with that id gets the new body; the other
  requests leave the comments of the pull request \<open>number\<close> as they are.
\<close>

definition applyWrite :: "int \<Rightarrow> comment_write \<Rightarrow> github \<Rightarrow> github" where
  "applyWrite number w gh =
     (case w of
        UpdateBody ident body \<Rightarrow>
          gh\<lparr>commentPages := (commentPages gh)
               (number := map (map (\<lambda>c. if cid c = ident then c\<lparr>c_body := body\<rparr> else c))
                            (commentPages gh number))\<rparr>
      | _ \<Rightarrow> gh)"

section \<open>deploy/vercel-client.ts\<close>

text \<open>
  \<open>process.env\<close> is a map from names to values; \<open>envOr env k\<close> is
  \<open>process.env.k || ''\<close>.
\<close>

type_synonym env = "string \<rightharpoonup> string"

definition envOr :: "env \<Rightarrow> string \<Rightarrow> string" where
  "envOr env k = orEmpty (env k)"

definition getBranch :: "env \<Rightarrow> string" where
  "getBranch env =
     (let refEnv = envOr env ''GITHUB_REF''; headRef = envOr env ''GITHUB_HEAD_REF''
      in if headRef \<noteq> [] then headRef
         else if startsWith refEnv ''refs/heads/'' then replaceFirst ''refs/heads/'' [] refEnv
         else if startsWith refEnv ''refs/tags/'' then replaceFirst ''refs/tags/'' [] refEnv
         else ''unknown'')"

definition resolveTarget :: "env \<Rightarrow> string" where
  "resolveTarget env =
     (if env ''GITHUB_REF'' = Some ''refs/heads/main'' then ''production'' else ''staging'')"

text \<open>The two quote characters, which a string literal cannot hold.\<close>

definition squote :: char where
  "squote = CHR 0x27"

definition dquote :: char where
  "dquote = CHR 0x22"

text \<open>
  \<open>raw.match(/'([^']*)'|"([^"]*)"|[^\s]+/gm) ?? []\<close>: from the left, a quoted run with
  its quotes when the quote is closed later, else a run without white space; white
  space between the matches is skipped.
\<close>

function tokenize :: "string \<Rightarrow> string list" where
  "tokenize [] = []"
| "tokenize (c # cs) =
     (if (c = squote \<or> c = dquote) \<and> c \<in> set cs then
        (c # takeWhile (\<lambda>d. d \<noteq> c) cs @ [c]) #
          tokenize (drop 1 (dropWhile (\<lambda>d. d \<noteq> c) cs))
      else if isSpace c then tokenize cs
      else (c # takeWhile (\<lambda>d. \<not> isSpace d) cs) # tokenize (dropWhile (\<lambda>d. \<not> isSpace d) cs))"
  by pat_completeness auto
termination
  by (relation "measure length")
     (auto simp: less_Suc_eq_le length_dropWhile_le
           intro: le_trans [OF diff_le_self length_dropWhile_le])

text \<open>\<open>v.replace(/^"|"$/g, '')\<close>: a leading and a trailing double quote go.\<close>

definition stripQuotes :: "string \<Rightarrow> string" where
  "stripQuotes v =
     (let v1 = (if v \<noteq> [] \<and> hd v = dquote then tl v else v)
      in if v1 \<noteq> [] \<and> last v1 = dquote then butlast v1 else v1)"

text \<open>
  The loop of \<open>parseMetaArgs\<close> over the tokens. The record \<open>meta\<close> is a map; the
  assignment \<open>meta[k] = v\<close> with \<open>k = '__proto__'\<close> creates no property of a plain
  object, so that key is left out.
\<close>

fun metaLoop :: "string list \<Rightarrow> (string \<rightharpoonup> string) \<Rightarrow> (string \<rightharpoonup> string)" where
  "metaLoop [] meta = meta"
| "metaLoop (token # ts) meta =
     (if token = ''-m'' \<or> token = ''--meta'' then
        (let kv = (case ts of [] \<Rightarrow> [] | x # _ \<Rightarrow> x);
             meta' = (case indexOf kv ''='' of
                        None \<Rightarrow> meta
                      | Some eq \<Rightarrow>
                          if 0 < eq then
                            (let k = take eq kv; v = stripQuotes (drop (eq + 1) kv)
                             in if k = ''__proto__'' then meta else meta(k \<mapsto> v))
                          else meta)
         in case ts of [] \<Rightarrow> meta' | _ # later \<Rightarrow> metaLoop later meta')
      else metaLoop ts meta)"

definition parseMetaArgs :: "string option \<Rightarrow> (string \<rightharpoonup> string)" where
  "parseMetaArgs raw =
     (case raw of
        None \<Rightarrow> Map.empty
      | Some r \<Rightarrow> if r = [] then Map.empty else metaLoop (tokenize r) Map.empty)"

record deploy_options =
  o_token :: string
  o_projectId :: string
  o_orgId :: string
  o_workingDirectory :: string
  o_framework :: "string option"
  o_target :: "string option"
  o_aliasDomain :: "string option"
  o_aliasBranch :: "string option"
  o_aliasDomains :: "string list option"
  o_vercelArgs :: "string option"
  o_vercelScope :: "string option"

text \<open>
  The \<open>meta\<close> object of the request, before the parsed extra metadata is spread into
  it.
\<close>

definition explicitMeta :: "deploy_options \<Rightarrow> env \<Rightarrow> (string \<rightharpoonup> string)" where
  "explicitMeta options env =
     (let branch = getBranch env;
          repo = envOr env ''GITHUB_REPOSITORY'';
          owner = envOr env ''GITHUB_REPOSITORY_OWNER'';
          sha = envOr env ''GITHUB_SHA'';
          commitMessage = envOr env ''GITHUB_COMMIT_MESSAGE'';
          commitAuthorName = envOr env ''GITHUB_COMMIT_AUTHOR_NAME'';
          commitAuthorLogin =
            (if envOr env ''GITHUB_COMMIT_AUTHOR_LOGIN'' \<noteq> []
             then envOr env ''GITHUB_COMMIT_AUTHOR_LOGIN'' else envOr env ''GITHUB_ACTOR'');
          prNumber = envOr env ''GITHUB_PR_NUMBER'';
          prHeadRef =
            (if envOr env ''GITHUB_PR_HEAD_REF'' \<noteq> []
             then envOr env ''GITHUB_PR_HEAD_REF'' else envOr env ''GITHUB_HEAD_REF'');
          prBaseRef =
            (if envOr env ''GITHUB_PR_BASE_REF'' \<noteq> []
             then envOr env ''GITHUB_PR_BASE_REF'' else envOr env ''GITHUB_BASE_REF'');
          includePrMeta = (0 < length (trim prNumber));
          base = [''githubCommitRef'' \<mapsto> branch,
                  ''githubCommitSha'' \<mapsto> sha,
                  ''githubRepo'' \<mapsto> (case splitOn CHR ''/'' repo of _ # name # _ \<Rightarrow> name | _ \<Rightarrow> []),
                  ''githubOrg'' \<mapsto> owner,
                  ''githubCommitMessage'' \<mapsto> commitMessage,
                  ''githubCommitAuthorName'' \<mapsto> commitAuthorName,
                  ''githubCommitAuthorLogin'' \<mapsto> commitAuthorLogin,
                  ''source'' \<mapsto> ''github''];
          scope = (case o_vercelScope options of
                     None \<Rightarrow> Map.empty
                   | Some s \<Rightarrow> if s = [] then Map.empty else [''githubScope'' \<mapsto> s]);
          pr = (if includePrMeta then
                  [''githubPrNumber'' \<mapsto> prNumber]
                    ++ (if prHeadRef \<noteq> [] then [''githubPrHeadRef'' \<mapsto> prHeadRef] else Map.empty)
                    ++ (if prBaseRef \<noteq> [] then [''githubPrBaseRef'' \<mapsto> prBaseRef] else Map.empty)
                else Map.empty)
      in base ++ scope ++ pr)"

text \<open>
  The JSON body of the deployment request. A file is its path and its content in
  base64.
\<close>

record deploy_body =
  b_name :: string
  b_project :: string
  b_target :: string
  b_files :: "(string \<times> string) list"
  b_meta :: "string \<rightharpoonup> string"
  b_framework :: string

definition deployBody :: "deploy_options \<Rightarrow> env \<Rightarrow> (string \<times> string) list \<Rightarrow> deploy_body" where
  "deployBody options env files =
     (let target = (case o_target options of
                      None \<Rightarrow> resolveTarget env
                    | Some t \<Rightarrow> if trim t \<noteq> [] then t else resolveTarget env);
          additionalMeta = parseMetaArgs (o_vercelArgs options)
      in \<lparr>b_name = ''c15t'',
          b_project = o_projectId options,
          b_target = target,
          b_files = files,
          b_meta = explicitMeta options env ++ additionalMeta,
          b_framework = (case o_framework options of
                           None \<Rightarrow> ''nextjs''
                         | Some f \<Rightarrow> if f = [] then ''nextjs'' else f)\<rparr>)"

text \<open>
  What lies outside the action, as steps on a world \<open>'w\<close>. \<open>readFiles w cwd\<close> is
  \<open>walkFiles\<close> with the reading and encoding of each file (\<open>Inl\<close> when the file system
  throws). \<open>postDeployment w token orgId body\<close> is the \<open>POST /v13/deployments\<close> with the
  parsing of its answer: \<open>Inl\<close> on a transport error, a status outside 2xx or an answer
  that is not JSON, else the \<open>url\<close> and \<open>id\<close> of the answer. \<open>postAlias w token orgId id
  domain\<close> is the \<open>POST /v2/deployments/id/aliases\<close>: \<open>None\<close> when it resolves, the
  rejection otherwise. \<open>appendFile w path text\<close> is \<open>appendFileSync(path, text)\<close>: the error
  it throws, if any. \<open>templateAliasDomains env domains\<close> is the function of that name,
  which fills the \<open>{{BRANCH}}\<close> and \<open>{{PR_NUMBER}}\<close> templates by regular expressions and
  drops the domains that keep a \<open>{{\<close>.
\<close>

record deploy_json =
  j_url :: "string option"
  j_id :: "string option"

record 'w vercel_api =
  readFiles :: "'w \<Rightarrow> string \<Rightarrow> thrown + (string \<times> string) list"
  postDeployment :: "'w \<Rightarrow> string \<Rightarrow> string \<Rightarrow> deploy_body \<Rightarrow> (thrown + deploy_json) \<times> 'w"
  postAlias :: "'w \<Rightarrow> string \<Rightarrow> string \<Rightarrow> string \<Rightarrow> string \<Rightarrow> thrown option \<times> 'w"
  appendFile :: "'w \<Rightarrow> string \<Rightarrow> string \<Rightarrow> thrown option \<times> 'w"
  templateAliasDomains :: "env \<Rightarrow> string list option \<Rightarrow> string list"

record deploy_result =
  r_url :: string
  r_id :: "string option"

definition allAliases :: "'w vercel_api \<Rightarrow> deploy_options \<Rightarrow> env \<Rightarrow> string list" where
  "allAliases api options env =
     (case o_aliasDomain options of
        None \<Rightarrow> []
      | Some d \<Rightarrow> if d = [] then [] else [d])
     @ templateAliasDomains api env (o_aliasDomains options)"

text \<open>
  The \<open>for\<close> loop over the aliases, from the flag \<open>canonicalSet\<close> and the current \<open>url\<close>:
  it gives the final \<open>url\<close> and the world after its requests. A rejected request is
  caught and the loop goes on.
\<close>

fun aliasLoop ::
  "'w vercel_api \<Rightarrow> string \<Rightarrow> string \<Rightarrow> string \<Rightarrow> string list \<Rightarrow> bool \<Rightarrow> string \<Rightarrow> 'w \<Rightarrow>
   string \<times> 'w" where
  "aliasLoop api token orgId ident [] canonicalSet url w = (url, w)"
| "aliasLoop api token orgId ident (domain # ds) canonicalSet url w =
     (case postAlias api w token orgId ident domain of
        (None, w') \<Rightarrow>
          (if \<not> canonicalSet \<and> str_includes domain ''.''
           then aliasLoop api token orgId ident ds True (''https://'' @ domain) w'
           else aliasLoop api token orgId ident ds canonicalSet url w')
      | (Some e, w') \<Rightarrow> aliasLoop api token orgId ident ds canonicalSet url w')"

text \<open>
  The two \<open>appendFileSync\<close> calls at the end of \<open>deployToVercel\<close>, made when
  \<open>GITHUB_OUTPUT\<close> is set. They stand outside every \<open>try\<close>: what one throws is thrown by
  \<open>deployToVercel\<close>.
\<close>

definition writeOutputs :: "'w vercel_api \<Rightarrow> env \<Rightarrow> string \<Rightarrow> 'w \<Rightarrow> thrown option \<times> 'w" where
  "writeOutputs api env url w =
     (case env ''GITHUB_OUTPUT'' of
        None \<Rightarrow> (None, w)
      | Some path \<Rightarrow>
          if path = [] then (None, w)
          else (case appendFile api w path (''url='' @ url @ ''\<newline>'') of
                  (Some e, w') \<Rightarrow> (Some e, w')
                | (None, w') \<Rightarrow> appendFile api w' path (''deployment_url='' @ url @ ''\<newline>'')))"

definition deployToVercel ::
  "'w vercel_api \<Rightarrow> deploy_options \<Rightarrow> env \<Rightarrow> 'w \<Rightarrow> (thrown + deploy_result) \<times> 'w" where
  "deployToVercel api options env w =
     (let cwd = (if o_workingDirectory options = [] then ''.'' else o_workingDirectory options)
      in case readFiles api w cwd of
           Inl e \<Rightarrow> (Inl e, w)
         | Inr files \<Rightarrow>
             (case postDeployment api w (o_token options) (o_orgId options)
                     (deployBody options env files) of
                (Inl e, w1) \<Rightarrow> (Inl e, w1)
              | (Inr json, w1) \<Rightarrow>
                  (let url = (case j_url json of
                                None \<Rightarrow> []
                              | Some u \<Rightarrow> if u = [] then [] else ''https://'' @ u)
                   in if url = [] then
                        (Inl (JsError ''Vercel did not return a deployment URL.''), w1)
                      else
                        (let aliases = allAliases api options env;
                             (url', w2) =
                               (if aliases \<noteq> [] \<and> truthy (o_aliasBranch options) \<and>
                                   Some (getBranch env) = o_aliasBranch options \<and>
                                   truthy (j_id json)
                                then aliasLoop api (o_token options) (o_orgId options)
                                       (orEmpty (j_id json)) aliases False url w1
                                else (url, w1))
                         in case writeOutputs api env url' w2 of
                              (Some e, w3) \<Rightarrow> (Inl e, w3)
                            | (None, w3) \<Rightarrow> (Inr \<lparr>r_url = url', r_id = j_id json\<rparr>, w3)))))"

text \<open>
  The alias requests of a run as the remote answers them, apart from the loop above:
  each candidate in order with whether its request resolved, the world passing from one
  request to the next, and the world after the last request.
\<close>

fun aliasOutcomes ::
  "'w vercel_api \<Rightarrow> string \<Rightarrow> string \<Rightarrow> string \<Rightarrow> string list \<Rightarrow> 'w \<Rightarrow> (string \<times> bool) list" where
  "aliasOutcomes api token orgId ident [] w = []"
| "aliasOutcomes api token orgId ident (domain # ds) w =
     (domain, fst (postAlias api w token orgId ident domain) = None) #
       aliasOutcomes api token orgId ident ds (snd (postAlias api w token orgId ident domain))"

fun aliasWorld :: "'w vercel_api \<Rightarrow> string \<Rightarrow> string \<Rightarrow> string \<Rightarrow> string list \<Rightarrow> 'w \<Rightarrow> 'w" where
  "aliasWorld api token orgId ident [] w = w"
| "aliasWorld api token orgId ident (domain # ds) w =
     aliasWorld api token orgId ident ds (snd (postAlias api w token orgId ident domain))"

section \<open>steps/deployment.ts\<close>

text \<open>
  GitHub and the docs script, as steps on the world. \<open>setupDocsWithScript w token\<close>
  gives the error it throws, if any. \<open>createDeployment w sha environment transient\<close> is
  \<open>repos.createDeployment\<close>, answering \<open>data.id\<close> when it is a number.
  \<open>createDeploymentStatus w id state description url\<close> and \<open>getCommit w sha\<close> are the REST
  calls of those names; \<open>changesApi w\<close> are the two calls of change detection.
\<close>

record commit_info =
  commit_message :: "string option"
  commit_authorName :: "string option"

record 'w github_api =
  setupDocsWithScript :: "'w \<Rightarrow> string \<Rightarrow> thrown option \<times> 'w"
  createDeployment :: "'w \<Rightarrow> string \<Rightarrow> string \<Rightarrow> bool \<Rightarrow> (thrown + int option) \<times> 'w"
  createDeploymentStatus ::
    "'w \<Rightarrow> int \<Rightarrow> string \<Rightarrow> string \<Rightarrow> string option \<Rightarrow> thrown option \<times> 'w"
  getCommit :: "'w \<Rightarrow> string \<Rightarrow> (thrown + commit_info) \<times> 'w"
  changesApi :: "'w \<Rightarrow> changes_api"

text \<open>
  The state of a run: the world, \<open>process.env\<close>, and the lines written through
  \<open>@actions/core\<close>.
\<close>

record 'w run =
  world :: 'w
  processEnv :: env
  coreLines :: "core_line list"

definition createGitHubDeployment ::
  "'w github_api \<Rightarrow> gh_context \<Rightarrow> string \<Rightarrow> 'w run \<Rightarrow> int option \<times> 'w run" where
  "createGitHubDeployment gapi ctx environmentName r =
     (case createDeployment gapi (world r) (ctx_sha ctx) environmentName
             (environmentName \<noteq> ''production'') of
        (Inr ident, w') \<Rightarrow> (ident, r\<lparr>world := w'\<rparr>)
      | (Inl e, w') \<Rightarrow>
          (None, r\<lparr>world := w',
                   coreLines := coreLines r @
                     [CoreWarning (''Could not create GitHub Deployment: '' @ messageOf e)]\<rparr>))"

definition setGitHubDeploymentStatus ::
  "'w github_api \<Rightarrow> int \<Rightarrow> string \<Rightarrow> string \<Rightarrow> string option \<Rightarrow> 'w run \<Rightarrow> 'w run" where
  "setGitHubDeploymentStatus gapi deploymentId state description environmentUrl r =
     (case createDeploymentStatus gapi (world r) deploymentId state description
             (if truthy environmentUrl then environmentUrl else None) of
        (None, w') \<Rightarrow> r\<lparr>world := w'\<rparr>
      | (Some e, w') \<Rightarrow>
          r\<lparr>world := w',
            coreLines := coreLines r @
              [CoreWarning (''Could not set deployment '' @ state @ '': '' @ messageOf e)]\<rparr>)"

definition resolveBranch :: "gh_context \<Rightarrow> string" where
  "resolveBranch ctx =
     (let r = orEmpty (ctx_ref ctx); headRef = orEmpty (ctx_headRef ctx)
      in if headRef \<noteq> [] then headRef
         else if startsWith r ''refs/heads/'' then replaceFirst ''refs/heads/'' [] r
         else r)"

definition computeEnvironmentName :: "string option \<Rightarrow> string \<Rightarrow> string" where
  "computeEnvironmentName target branch =
     (if target = Some ''production'' then ''production''
      else if branch = ''main'' then ''production''
      else ''preview/'' @ branch)"

text \<open>\<open>String(n)\<close> for a whole number that is not negative.\<close>

function showNat :: "nat \<Rightarrow> string" where
  "showNat n =
     (if n < 10 then [char_of (48 + n)]
      else showNat (n div 10) @ [char_of (48 + n mod 10)])"
  by pat_completeness auto
termination
  by (relation "measure id") auto

declare showNat.simps [simp del]

definition ensureGitMetaEnv :: "'w github_api \<Rightarrow> gh_context \<Rightarrow> 'w run \<Rightarrow> 'w run" where
  "ensureGitMetaEnv gapi ctx r =
     (let env = processEnv r
      in if truthy (env ''GITHUB_COMMIT_MESSAGE'') \<and> truthy (env ''GITHUB_COMMIT_AUTHOR_NAME'') \<and>
            truthy (env ''GITHUB_COMMIT_AUTHOR_LOGIN'')
         then r
         else
           (case getCommit gapi (world r) (ctx_sha ctx) of
              (Inl e, w') \<Rightarrow>
                r\<lparr>world := w',
                  coreLines := coreLines r @
                    [CoreDebug (''ensureGitMetaEnv failed: '' @ messageOf e)]\<rparr>
            | (Inr commit, w') \<Rightarrow>
                (let env1 = (if \<not> truthy (env ''GITHUB_COMMIT_MESSAGE'')
                             then env(''GITHUB_COMMIT_MESSAGE'' \<mapsto> orEmpty (commit_message commit))
                             else env);
                     env2 = (if \<not> truthy (env1 ''GITHUB_COMMIT_AUTHOR_NAME'')
                             then env1(''GITHUB_COMMIT_AUTHOR_NAME'' \<mapsto>
                                         orEmpty (commit_authorName commit))
                             else env1);
                     env3 = (if \<not> truthy (env2 ''GITHUB_COMMIT_AUTHOR_LOGIN'')
                             then env2(''GITHUB_COMMIT_AUTHOR_LOGIN'' \<mapsto> ctx_actor ctx)
                             else env2);
                     prNum = (case ctx_pullRequest ctx of None \<Rightarrow> None | Some pr \<Rightarrow> pr_number pr);
                     env4 = (if \<not> truthy (env3 ''GITHUB_PR_NUMBER'')
                             then (case prNum of
                                     None \<Rightarrow> env3
                                   | Some n \<Rightarrow> env3(''GITHUB_PR_NUMBER'' \<mapsto> showNat n))
                             else env3)
                 in r\<lparr>world := w', processEnv := env4\<rparr>)))"

text \<open>
  \<open>performVercelDeployment\<close> returns the deployment URL or \<open>undefined\<close>, and the state of
  the run after it. The inputs are strings; an input that is not set is the empty
  string.
\<close>

definition performVercelDeployment ::
  "'w github_api \<Rightarrow> 'w vercel_api \<Rightarrow> inputs \<Rightarrow> gh_context \<Rightarrow> 'w run \<Rightarrow> string option \<times> 'w run" where
  "performVercelDeployment gapi vapi inp ctx r0 =
     (if vercelToken inp = [] \<or> vercelProjectId inp = [] \<or> vercelOrgId inp = [] then (None, r0)
      else
        (let (docsError, r1) =
               (if setupDocs inp then
                  (case setupDocsWithScript gapi (world r0) (consentGitToken inp) of
                     (None, w') \<Rightarrow> (None, r0\<lparr>world := w'\<rparr>)
                   | (Some e, w') \<Rightarrow>
                       (Some e,
                        r0\<lparr>world := w',
                           coreLines := coreLines r0 @
                             [CoreSetFailed (''docs setup failed: '' @ messageOf e)]\<rparr>))
                else (None, r0))
         in if docsError \<noteq> None then (None, r1)
            else if \<not> shouldDeployByPolicy ctx (Some (deployOnPushBranches inp))
                         (Some (deployOnPrBaseBranches inp)) then
              (None, r1\<lparr>coreLines := coreLines r1 @
                          [CoreInfo ''Policy prevents deploy on this ref; skipping deployment'']\<rparr>)
            else
              (let (skip, r2) =
                     (if onlyIfChanged inp then
                        (let globs = (if changeGlobs inp \<noteq> [] then changeGlobs inp
                                      else [''docs/**'', ''packages/*/src/**'',
                                            ''packages/*/package.json'']);
                             (relevant, ls) = detectRelevantChanges (changesApi gapi (world r1))
                                                ctx globs;
                             r' = r1\<lparr>coreLines := coreLines r1 @ ls\<rparr>
                         in if \<not> relevant \<and> \<not> checkTemplateChanges inp then
                              (True,
                               r'\<lparr>coreLines := coreLines r' @
                                     [CoreInfo ''No relevant file changes detected; skipping deployment'']\<rparr>)
                            else (False, r'))
                      else (False, r1))
               in if skip then (None, r2)
                  else
                    (let branch = resolveBranch ctx;
                         targetHint =
                           (if vercelTarget inp \<noteq> [] \<and> trim (vercelTarget inp) \<noteq> []
                            then vercelTarget inp
                            else if branch = ''main'' then ''production'' else ''staging'');
                         environmentName = computeEnvironmentName (Some targetHint) branch;
                         (deploymentId, r3) = createGitHubDeployment gapi ctx environmentName r2;
                         r4 = (case deploymentId of
                                 None \<Rightarrow> r3
                               | Some i \<Rightarrow>
                                   setGitHubDeploymentStatus gapi i ''in_progress''
                                     ''Starting Vercel deploy'' None r3);
                         r5 = ensureGitMetaEnv gapi ctx r4;
                         options =
                           \<lparr>o_token = vercelToken inp,
                            o_projectId = vercelProjectId inp,
                            o_orgId = vercelOrgId inp,
                            o_workingDirectory = vercelWorkingDirectory inp,
                            o_framework = Some (vercelFramework inp),
                            o_target = Some targetHint,
                            o_aliasDomain = (if canaryAlias inp = [] then None
                                             else Some (canaryAlias inp)),
                            o_aliasBranch = (if aliasOnBranch inp = [] then None
                                             else Some (aliasOnBranch inp)),
                            o_aliasDomains = Some (aliasDomains inp),
                            o_vercelArgs = Some (vercelArgs inp),
                            o_vercelScope = Some (vercelScope inp)\<rparr>;
                         (result, rr) =
                           executeWithRetry (deployToVercel vapi options (processEnv r5))
                             handleVercel (Count 3) (world r5);
                         r6 = r5\<lparr>world := opState rr, coreLines := coreLines r5 @ logged rr\<rparr>
                     in case result of
                          Inr res \<Rightarrow>
                            (let url = r_url res;
                                 r7 = r6\<lparr>coreLines := coreLines r6 @
                                            [CoreSetOutput ''deployment_url'' (Some url)]\<rparr>;
                                 r8 = (case deploymentId of
                                         None \<Rightarrow> r7
                                       | Some i \<Rightarrow>
                                           setGitHubDeploymentStatus gapi i ''success''
                                             (''Preview ready'' @
                                                (if environmentName \<noteq> []
                                                 then '': '' @ environmentName else []))
                                             (Some url) r7)
                             in (Some url, r8))
                        | Inl e \<Rightarrow>
                            (let r7 = r6\<lparr>coreLines := coreLines r6 @
                                            [CoreSetFailed (''vercel deployment failed: '' @
                                                              messageOf e)]\<rparr>;
                                 r8 = (case deploymentId of
                                         None \<Rightarrow> r7
                                       | Some i \<Rightarrow>
                                           setGitHubDeploymentStatus gapi i ''failure''
                                             ''Vercel deployment failed'' None r7)
                             in (None, r8))))))"

section \<open>Sample runs\<close>

text \<open>Contexts, remote answers and inputs on which the properties below are run.\<close>

text \<open>The two operations of \<open>errors.test.ts\<close>, as steps on a call counter.\<close>

definition flakyTwice :: "nat \<Rightarrow> (thrown + string) \<times> nat" where
  "flakyTwice n =
     (if n < 2 then Inl (JsError ''Rate limit exceeded'') else Inr ''ok'', Suc n)"

definition alwaysMissing :: "nat \<Rightarrow> (thrown + string) \<times> nat" where
  "alwaysMissing n = (Inl (JsError ''Project not found''), Suc n)"

definition pushTo :: "string \<Rightarrow> gh_context" where
  "pushTo r = \<lparr>ctx_eventName = ''push'', ctx_ref = Some r, ctx_headRef = None,
     ctx_sha = ''abc123'', ctx_actor = ''octocat'', ctx_before = Some ''def456'',
     ctx_pullRequest = None\<rparr>"

definition prInto :: "string \<Rightarrow> gh_context" where
  "prInto base = \<lparr>ctx_eventName = ''pull_request'', ctx_ref = Some ''refs/pull/7/merge'',
     ctx_headRef = Some ''feature/x'', ctx_sha = ''abc123'', ctx_actor = ''octocat'',
     ctx_before = None,
     ctx_pullRequest = Some \<lparr>pr_number = Some 7, pr_baseRef = Some base\<rparr>\<rparr>"

definition failingApi :: changes_api where
  "failingApi = \<lparr>listFiles = (\<lambda>n. Inl (JsError ''Not Found'')),
                  compareCommits = (\<lambda>b. Inl (NonError ''socket hang up''))\<rparr>"

definition baseInputs :: inputs where
  "baseInputs = \<lparr>pullRequestNumber = Some 7, header = [], appendInput = False,
     hideDetails = False, skipUnchanged = True, ignoreEmpty = False, authorLogin = [],
     vercelToken = ''tok'', vercelProjectId = ''prj'', vercelOrgId = ''org'',
     vercelWorkingDirectory = ''.docs'', vercelFramework = ''nextjs'', vercelTarget = [],
     canaryAlias = [], aliasOnBranch = [], aliasDomains = [], vercelArgs = [],
     vercelScope = [], setupDocs = False, consentGitToken = [], onlyIfChanged = False,
     changeGlobs = [], checkTemplateChanges = False, deployOnPushBranches = [],
     deployOnPrBaseBranches = []\<rparr>"

text \<open>
  Pull request 7 with a reviewer's comment and the sticky comment \<open>c1\<close> of the
  action, whose body is \<open>b\<close>.
\<close>

definition stickyComment :: "string \<Rightarrow> comment" where
  "stickyComment b =
     \<lparr>cid = ''c1'', c_author = Some ''github-actions'', c_isMinimized = False, c_body = b\<rparr>"

definition stickyWith :: "string \<Rightarrow> github" where
  "stickyWith b = \<lparr>viewerLogin = ''github-actions[bot]'',
     commentPages = (\<lambda>n. if n = 7 then
        [[\<lparr>cid = ''c0'', c_author = Some ''alice'', c_isMinimized = False, c_body = ''lgtm''\<rparr>,
          stickyComment b]]
        else [])\<rparr>"

text \<open>A sticky comment that holds the auto-generated block around its marked part.\<close>

definition blockBody :: string where
  "blockBody =
     AUTO_COMMENT_START @ ''\<newline>'' @ bodyWithHeader ''A'' [] @ ''\<newline>'' @ AUTO_COMMENT_END"

definition appendOn :: "ensure_options option" where
  "appendOn = Some \<lparr>appendOverride = Some True, hideDetailsOverride = None\<rparr>"

text \<open>
  A deployment on the branch \<open>canary\<close> with three alias candidates. The world is the
  list of the requests made so far; the alias \<open>x.example.com\<close> is refused.
\<close>

definition sampleEnv :: env where
  "sampleEnv = [''GITHUB_REF'' \<mapsto> ''refs/heads/canary'', ''GITHUB_SHA'' \<mapsto> ''abc123'',
                ''GITHUB_REPOSITORY'' \<mapsto> ''c15t/c15t'', ''GITHUB_REPOSITORY_OWNER'' \<mapsto> ''c15t'',
                ''GITHUB_OUTPUT'' \<mapsto> ''out.txt'']"

definition sampleOptions :: deploy_options where
  "sampleOptions = \<lparr>o_token = ''tok'', o_projectId = ''prj'', o_orgId = ''org'',
     o_workingDirectory = ''.docs'', o_framework = Some ''nextjs'', o_target = Some ''staging'',
     o_aliasDomain = Some ''localhost'', o_aliasBranch = Some ''canary'',
     o_aliasDomains = Some [''x.example.com'', ''y.example.com''],
     o_vercelArgs = Some ''-m source=cli --meta team=docs'', o_vercelScope = None\<rparr>"

definition sampleJson :: deploy_json where
  "sampleJson = \<lparr>j_url = Some ''c15t-abc.vercel.app'', j_id = Some ''dpl_1''\<rparr>"

definition sampleApi :: "string list vercel_api" where
  "sampleApi = \<lparr>readFiles = (\<lambda>w cwd. Inr [(''package.json'', ''e30='')]),
     postDeployment = (\<lambda>w token orgId body.
        (Inr sampleJson, w @ [''deploy source='' @ orEmpty (b_meta body ''source'')])),
     postAlias = (\<lambda>w token orgId ident domain.
        (if domain = ''x.example.com'' then Some (JsError ''Failed to alias domain'') else None,
         w @ [''alias '' @ domain])),
     appendFile = (\<lambda>w path t. (None, w @ [''append '' @ t])),
     templateAliasDomains = (\<lambda>env ds. case ds of None \<Rightarrow> [] | Some l \<Rightarrow> l)\<rparr>"


text \<open>
  Services that count their calls: the world is the number of requests made so far.
\<close>

definition countingGithub :: "nat github_api" where
  "countingGithub =
     \<lparr>setupDocsWithScript = (\<lambda>w token. (None, Suc w)),
      createDeployment = (\<lambda>w sha environment transient. (Inr (Some 42), Suc w)),
      createDeploymentStatus = (\<lambda>w ident state description url. (None, Suc w)),
      getCommit = (\<lambda>w sha.
        (Inr \<lparr>commit_message = Some ''docs: fix typo'', commit_authorName = Some ''Ada''\<rparr>,
         Suc w)),
      changesApi = (\<lambda>w. failingApi)\<rparr>"

definition countingVercel :: "nat vercel_api" where
  "countingVercel =
     \<lparr>readFiles = (\<lambda>w cwd. Inr [(''package.json'', ''e30='')]),
      postDeployment = (\<lambda>w token orgId body. (Inr sampleJson, Suc w)),
      postAlias = (\<lambda>w token orgId ident domain. (None, Suc w)),
      appendFile = (\<lambda>w path t. (None, Suc w)),
      templateAliasDomains = (\<lambda>env ds. case ds of None \<Rightarrow> [] | Some l \<Rightarrow> l)\<rparr>"

definition freshRun :: "nat run" where
  "freshRun = \<lparr>world = 0, processEnv = sampleEnv, coreLines = []\<rparr>"

section \<open>Properties of the retry executor\<close>

text \<open>
  C3. With \<open>maxRetries = 3\<close>: an operation that fails twice with errors the classifier
  marks retryable and then succeeds gives the success value after exactly three calls
  of the operation; an operation whose first failure is classified as not retryable is
  called exactly once and the error it threw is the one propagated.
\<close>

theorem executeWithRetry_three_attempts_or_abort:
  "(operation s0 = (Inl e1, s1) \<and> operation s1 = (Inl e2, s2) \<and> operation s2 = (Inr v, s3) \<and>
    retryable (mapError e1) \<and> retryable (mapError e2) \<longrightarrow>
      fst (executeWithRetry operation mapError (Count 3) s0) = Inr v \<and>
      attempts (snd (executeWithRetry operation mapError (Count 3) s0)) = 3 \<and>
      opState (snd (executeWithRetry operation mapError (Count 3) s0)) = s3) \<and>
   (operation s0 = (Inl e1, s1) \<and> \<not> retryable (mapError e1) \<longrightarrow>
      fst (executeWithRetry operation mapError (Count 3) s0) = Inl e1 \<and>
      attempts (snd (executeWithRetry operation mapError (Count 3) s0)) = 1 \<and>
      opState (snd (executeWithRetry operation mapError (Count 3) s0)) = s1)"
  by (simp add: executeWithRetry_def retryLoop.simps Let_def)

theorem executeWithRetry_three_attempts_or_abort_witness:
  "flakyTwice 0 = (Inl (JsError ''Rate limit exceeded''), 1) \<and>
   flakyTwice 1 = (Inl (JsError ''Rate limit exceeded''), 2) \<and>
   flakyTwice 2 = (Inr ''ok'', 3) \<and>
   retryable (handleVercel (JsError ''Rate limit exceeded'')) \<and>
   fst (executeWithRetry flakyTwice handleVercel (Count 3) 0) = Inr ''ok'' \<and>
   attempts (snd (executeWithRetry flakyTwice handleVercel (Count 3) 0)) = 3 \<and>
   alwaysMissing 0 = (Inl (JsError ''Project not found''), 1) \<and>
   \<not> retryable (handleVercel (JsError ''Project not found'')) \<and>
   fst (executeWithRetry alwaysMissing handleVercel (Count 3) 0) =
     Inl (JsError ''Project not found'') \<and>
   attempts (snd (executeWithRetry alwaysMissing handleVercel (Count 3) 0)) = 1"
proof -
  have r1: "retryable (handleVercel (JsError ''Rate limit exceeded''))"
    by code_simp
  have r2: "\<not> retryable (handleVercel (JsError ''Project not found''))"
    by code_simp
  have f: "flakyTwice 0 = (Inl (JsError ''Rate limit exceeded''), 1) \<and>
           flakyTwice 1 = (Inl (JsError ''Rate limit exceeded''), 2) \<and>
           flakyTwice 2 = (Inr ''ok'', 3)"
    by (simp add: flakyTwice_def)
  have m: "alwaysMissing 0 = (Inl (JsError ''Project not found''), 1)"
    by (simp add: alwaysMissing_def)
  have c1: "fst (executeWithRetry flakyTwice handleVercel (Count 3) 0) = Inr ''ok'' \<and>
            attempts (snd (executeWithRetry flakyTwice handleVercel (Count 3) 0)) = 3"
    using executeWithRetry_three_attempts_or_abort
            [of flakyTwice 0 "JsError ''Rate limit exceeded''" 1
                "JsError ''Rate limit exceeded''" 2 "''ok''" 3 handleVercel] f r1
    by blast
  have c2: "fst (executeWithRetry alwaysMissing handleVercel (Count 3) 0) =
              Inl (JsError ''Project not found'') \<and>
            attempts (snd (executeWithRetry alwaysMissing handleVercel (Count 3) 0)) = 1"
    using executeWithRetry_three_attempts_or_abort
            [of alwaysMissing 0 "JsError ''Project not found''" 1 _ _ _ _ handleVercel] m r2
    by blast
  from r1 r2 f m c1 c2 show ?thesis by blast
qed

section \<open>Properties of the policy gate\<close>

lemma startsWith_append: "startsWith (p @ s) p"
  by (induction p) auto

lemma indexOf_prefix: "indexOf (p @ s) p = Some 0"
  by (cases "p @ s") (auto simp: startsWith_append simp del: startsWith.simps dest: sym)

lemma replaceFirst_prefix: "replaceFirst p [] (p @ s) = s"
  by (simp add: replaceFirst_def indexOf_prefix)








text \<open>
  C9. A push allowlist input that is undefined or the empty string is read as the
  default \<open>main, canary\<close>, so a push to \<open>refs/heads/<branch>\<close> is allowed exactly when the
  branch is \<open>main\<close> or \<open>canary\<close>; the same holds for the allowlist of base branches on a
  pull-request event. An empty input cannot switch the default branches off.
\<close>

theorem empty_allowlist_is_default:
  "(pushCsv = None \<or> pushCsv = Some [] \<longrightarrow>
      parseCsv pushCsv [''main'', ''canary''] = [''main'', ''canary''] \<and>
      (\<not> isPullRequestEvent ctx \<and> ctx_ref ctx = Some (''refs/heads/'' @ branch) \<longrightarrow>
         shouldDeployByPolicy ctx pushCsv prCsv = (branch = ''main'' \<or> branch = ''canary''))) \<and>
   (prCsv = None \<or> prCsv = Some [] \<longrightarrow>
      parseCsv prCsv [''main'', ''canary''] = [''main'', ''canary''] \<and>
      (isPullRequestEvent ctx \<and> ctx_pullRequest ctx = Some pr \<and> pr_baseRef pr = Some base \<longrightarrow>
         shouldDeployByPolicy ctx pushCsv prCsv = (base = ''main'' \<or> base = ''canary'')))"
  by (auto simp add: shouldDeployByPolicy_def Let_def orEmpty_def replaceFirst_prefix parseCsv_def
         simp del: append.simps)

theorem empty_allowlist_is_default_witness:
  "\<not> isPullRequestEvent (pushTo ''refs/heads/main'') \<and>
   ctx_ref (pushTo ''refs/heads/main'') = Some (''refs/heads/'' @ ''main'') \<and>
   shouldDeployByPolicy (pushTo ''refs/heads/main'') (Some []) (Some ''docs'') \<and>
   shouldDeployByPolicy (pushTo ''refs/heads/main'') None (Some ''docs'') \<and>
   isPullRequestEvent (prInto ''canary'') \<and>
   ctx_pullRequest (prInto ''canary'') =
     Some \<lparr>pr_number = Some 7, pr_baseRef = Some ''canary''\<rparr> \<and>
   shouldDeployByPolicy (prInto ''canary'') (Some ''docs'') (Some []) \<and>
   shouldDeployByPolicy (prInto ''canary'') (Some ''docs'') None"
proof -
  have h1: "\<not> isPullRequestEvent (pushTo ''refs/heads/main'') \<and>
            ctx_ref (pushTo ''refs/heads/main'') = Some (''refs/heads/'' @ ''main'')"
    by (simp add: pushTo_def isPullRequestEvent_def)
  have h3: "isPullRequestEvent (prInto ''canary'') \<and>
            ctx_pullRequest (prInto ''canary'') =
              Some \<lparr>pr_number = Some 7, pr_baseRef = Some ''canary''\<rparr> \<and>
            pr_baseRef \<lparr>pr_number = Some 7, pr_baseRef = Some ''canary''\<rparr> = Some ''canary''"
    by (simp add: prInto_def isPullRequestEvent_def)
  have c1: "shouldDeployByPolicy (pushTo ''refs/heads/main'') (Some []) (Some ''docs'')"
    using empty_allowlist_is_default
            [of "Some []" "pushTo ''refs/heads/main''" "''main''" "Some ''docs''"] h1
    by simp
  have c2: "shouldDeployByPolicy (pushTo ''refs/heads/main'') None (Some ''docs'')"
    using empty_allowlist_is_default
            [of None "pushTo ''refs/heads/main''" "''main''" "Some ''docs''"] h1
    by simp
  have c3: "shouldDeployByPolicy (prInto ''canary'') (Some ''docs'') (Some [])"
    using empty_allowlist_is_default
            [of "Some ''docs''" "prInto ''canary''" _ "Some []"
                "\<lparr>pr_number = Some 7, pr_baseRef = Some ''canary''\<rparr>" "''canary''"] h3
    by simp
  have c4: "shouldDeployByPolicy (prInto ''canary'') (Some ''docs'') None"
    using empty_allowlist_is_default
            [of "Some ''docs''" "prInto ''canary''" _ None
                "\<lparr>pr_number = Some 7, pr_baseRef = Some ''canary''\<rparr>" "''canary''"] h3
    by simp
  from h1 h3 c1 c2 c3 c4 show ?thesis by blast
qed

section \<open>Properties of the glob matcher\<close>

text \<open>
  C5, as stated, fails: on a pattern of 21 stars \<open>globToRegex\<close> throws a plain \<open>Error\<close>,
  and the matcher \<open>minimatch\<close> does not fail: it catches the error and returns \<open>false\<close>.
\<close>

theorem invalid_glob_counterexample:
  "globToRegex (replicate 21 CHR ''*'') = Inl (JsError ''Too many wildcards in glob pattern'') \<and>
   minimatch ''docs/a.md'' (replicate 21 CHR ''*'') = Inr False"
  by (simp add: minimatch_def globToRegex_def)

text \<open>
  C5, amended. A pattern longer than 1000 characters makes \<open>globToRegex\<close> throw the
  \<open>Error\<close> \<open>Glob pattern too long\<close>; a pattern of at most 1000 characters with more than 20
  \<open>*\<close> characters (each star of a \<open>**\<close> counts) makes it throw the \<open>Error\<close>
  \<open>Too many wildcards in glob pattern\<close>. In both cases \<open>minimatch\<close> returns \<open>false\<close> for
  every path instead of failing.
\<close>

theorem invalid_glob_rejected:
  "(1000 < length glob \<longrightarrow> globToRegex glob = Inl (JsError ''Glob pattern too long'')) \<and>
   (length glob \<le> 1000 \<and> 20 < length (filter (\<lambda>c. c = CHR ''*'') glob) \<longrightarrow>
      globToRegex glob = Inl (JsError ''Too many wildcards in glob pattern'')) \<and>
   (1000 < length glob \<or> 20 < length (filter (\<lambda>c. c = CHR ''*'') glob) \<longrightarrow>
      minimatch path glob = Inr False)"
  by (auto simp add: globToRegex_def minimatch_def)

theorem invalid_glob_rejected_witness:
  "1000 < length (replicate 1001 CHR ''a'') \<and>
   globToRegex (replicate 1001 CHR ''a'') = Inl (JsError ''Glob pattern too long'') \<and>
   minimatch (replicate 1001 CHR ''a'') (replicate 1001 CHR ''a'') = Inr False \<and>
   length (replicate 21 CHR ''*'') \<le> 1000 \<and>
   20 < length (filter (\<lambda>c. c = CHR ''*'') (replicate 21 CHR ''*'')) \<and>
   globToRegex (replicate 21 CHR ''*'') = Inl (JsError ''Too many wildcards in glob pattern'') \<and>
   minimatch ''docs/a.md'' (replicate 21 CHR ''*'') = Inr False"
proof -
  have h1: "1000 < length (replicate 1001 CHR ''a'')"
    by simp
  have h2: "length (replicate 21 CHR ''*'') \<le> 1000 \<and>
            20 < length (filter (\<lambda>c. c = CHR ''*'') (replicate 21 CHR ''*''))"
    by simp
  have c1: "globToRegex (replicate 1001 CHR ''a'') = Inl (JsError ''Glob pattern too long'') \<and>
            minimatch (replicate 1001 CHR ''a'') (replicate 1001 CHR ''a'') = Inr False"
    using invalid_glob_rejected [of "replicate 1001 CHR ''a''" "replicate 1001 CHR ''a''"] h1
    by blast
  have c2: "globToRegex (replicate 21 CHR ''*'') =
              Inl (JsError ''Too many wildcards in glob pattern'') \<and>
            minimatch ''docs/a.md'' (replicate 21 CHR ''*'') = Inr False"
    using invalid_glob_rejected [of "replicate 21 CHR ''*''" "''docs/a.md''"] h2
    by blast
  from h1 h2 c1 c2 show ?thesis by blast
qed

section \<open>Properties of change detection\<close>

text \<open>
  C6. When the request for the changed files is rejected (the listing of the pull
  request's files on a pull-request event, the comparison of the commit range
  otherwise), \<open>detectRelevantChanges\<close> returns \<open>true\<close> and logs one warning that carries
  the message of the failure; the error is not propagated.
\<close>

theorem detectRelevantChanges_fails_open:
  "(isPullRequestEvent ctx \<and> ctx_pullRequest ctx = Some pr \<and> pr_number pr = Some n \<and> n \<noteq> 0 \<and>
      listFiles api n = Inl e \<longrightarrow>
      detectRelevantChanges api ctx globs =
        (True, [CoreWarning (''change detection failed, proceeding with deploy: '' @ messageOf e)])) \<and>
   (\<not> isPullRequestEvent ctx \<and>
      compareCommits api (compareBase ctx @ ''...'' @ ctx_sha ctx) = Inl e \<longrightarrow>
      detectRelevantChanges api ctx globs =
        (True, [CoreWarning (''change detection failed, proceeding with deploy: '' @ messageOf e)]))"
  by (auto simp add: detectRelevantChanges_def changeDetectionFailed_def Let_def
         simp del: append.simps)

theorem detectRelevantChanges_fails_open_witness:
  "isPullRequestEvent (prInto ''main'') \<and>
   listFiles failingApi 7 = Inl (JsError ''Not Found'') \<and>
   detectRelevantChanges failingApi (prInto ''main'') [''docs/**''] =
     (True, [CoreWarning ''change detection failed, proceeding with deploy: Not Found'']) \<and>
   \<not> isPullRequestEvent (pushTo ''refs/heads/main'') \<and>
   compareCommits failingApi ''def456...abc123'' = Inl (NonError ''socket hang up'') \<and>
   detectRelevantChanges failingApi (pushTo ''refs/heads/main'') [''docs/**''] =
     (True, [CoreWarning ''change detection failed, proceeding with deploy: socket hang up''])"
proof -
  have h1: "isPullRequestEvent (prInto ''main'') \<and>
            ctx_pullRequest (prInto ''main'') =
              Some \<lparr>pr_number = Some 7, pr_baseRef = Some ''main''\<rparr> \<and>
            pr_number \<lparr>pr_number = Some 7, pr_baseRef = Some ''main''\<rparr> = Some 7 \<and>
            (7::nat) \<noteq> 0 \<and> listFiles failingApi 7 = Inl (JsError ''Not Found'')"
    by (simp add: prInto_def isPullRequestEvent_def failingApi_def)
  have h2: "\<not> isPullRequestEvent (pushTo ''refs/heads/main'') \<and>
            compareCommits failingApi
              (compareBase (pushTo ''refs/heads/main'') @ ''...'' @ ctx_sha (pushTo ''refs/heads/main'')) =
              Inl (NonError ''socket hang up'')"
    by (simp add: pushTo_def isPullRequestEvent_def failingApi_def)
  have h3: "compareCommits failingApi ''def456...abc123'' = Inl (NonError ''socket hang up'')"
    by (simp add: failingApi_def)
  have c1: "detectRelevantChanges failingApi (prInto ''main'') [''docs/**''] =
              (True, [CoreWarning ''change detection failed, proceeding with deploy: Not Found''])"
    using detectRelevantChanges_fails_open
            [of "prInto ''main''" "\<lparr>pr_number = Some 7, pr_baseRef = Some ''main''\<rparr>" 7
                failingApi "JsError ''Not Found''" "[''docs/**'']"] h1
    by simp
  have c2: "detectRelevantChanges failingApi (pushTo ''refs/heads/main'') [''docs/**''] =
              (True, [CoreWarning ''change detection failed, proceeding with deploy: socket hang up''])"
    using detectRelevantChanges_fails_open
            [of "pushTo ''refs/heads/main''" _ _ failingApi "NonError ''socket hang up''"
                "[''docs/**'']"] h2
    by simp
  from h1 h2 h3 c1 c2 show ?thesis by blast
qed

section \<open>Properties of the sticky comment\<close>

lemma indexOf_Some_nonempty: "indexOf s p = Some i \<Longrightarrow> p \<noteq> [] \<Longrightarrow> s \<noteq> []"
  by (cases s) auto

lemma findInPages_holds: "findInPages P pages = Some c \<Longrightarrow> P c"
  by (induction pages) (auto split: option.splits simp: find_Some_iff)

lemma autoStart_nonempty: "autoStart h \<noteq> []"
  by (simp add: autoStart_def)

lemma previousOf_body_nonempty: "previousOf inp gh = Some prev \<Longrightarrow> c_body prev \<noteq> []"
  unfolding previousOf_def findPreviousComment_def Let_def
  by (auto dest!: findInPages_holds simp: isTarget_def str_includes_def autoStart_nonempty
        dest: indexOf_Some_nonempty)

text \<open>
  C1, amended. When a previous comment with an id is found, the update is not skipped as
  unchanged and append is requested, \<open>ensureComment\<close> appends exactly when the previous
  body contains both fixed literals \<open>AUTO_COMMENT_START\<close> and \<open>AUTO_COMMENT_END\<close> (they do
  not depend on the header): it then writes the markers of the header around the
  previous inner content, a line feed and the new body, where the previous inner content
  is what stands between the header markers of the previous body (after the hide-details
  rewriting when that is on, and provided that rewriting leaves a non-empty body).
  Otherwise it writes the markers around the new body alone.
\<close>

theorem ensureComment_append_trigger:
  "effectiveBody \<noteq> [] \<and> previousOf inp gh = Some prev \<and> cid prev \<noteq> [] \<and>
   \<not> handleSkipUnchanged inp effectiveBody (Some (c_body prev)) \<and>
   appendRequested inp options \<longrightarrow>
     c_body prev \<noteq> [] \<and>
     ensureComment closeDetails inp gh effectiveBody options =
       Inr (UpdateBody (cid prev)
              (let seen = (if shouldHideDetails inp options then closeDetails (c_body prev)
                           else c_body prev)
               in if str_includes (c_body prev) AUTO_COMMENT_START \<and>
                     str_includes (c_body prev) AUTO_COMMENT_END \<and> seen \<noteq> []
                  then bodyWithHeader
                         (bodyWithoutHeader seen (header inp) @ ''\<newline>'' @ effectiveBody)
                         (header inp)
                  else bodyWithHeader effectiveBody (header inp)),
            [CoreSetOutput ''previous_comment_id'' (Some (cid prev))])"
  by (auto simp add: ensureComment_def Let_def previousOf_body_nonempty previousHasAutoBlock_def
        getBodyOf_def updateComment_def truthy_def
        simp del: append.simps)

text \<open>
  C1, as stated, fails. The previous body holds both markers of this run's header around
  \<open>A\<close>, append is requested, and the write replaces the inner content by \<open>B\<close> instead of
  appending to \<open>A\<close>: the guard looks for the two fixed literals, not for the header markers.
\<close>

theorem append_trigger_counterexample:
  "str_includes (bodyWithHeader ''A'' []) (autoStart []) \<and>
   str_includes (bodyWithHeader ''A'' []) (autoEnd []) \<and>
   appendRequested baseInputs appendOn \<and>
   previousOf baseInputs (stickyWith (bodyWithHeader ''A'' [])) =
     Some (stickyComment (bodyWithHeader ''A'' [])) \<and>
   ensureComment id baseInputs (stickyWith (bodyWithHeader ''A'' [])) ''B'' appendOn =
     Inr (UpdateBody ''c1'' (bodyWithHeader ''B'' []),
          [CoreSetOutput ''previous_comment_id'' (Some ''c1'')]) \<and>
   bodyWithHeader ''B'' [] \<noteq> bodyWithHeader (''A'' @ ''\<newline>'' @ ''B'') []"
  by code_simp

theorem ensureComment_append_trigger_witness:
  "''B'' \<noteq> [] \<and>
   previousOf baseInputs (stickyWith blockBody) = Some (stickyComment blockBody) \<and>
   cid (stickyComment blockBody) \<noteq> [] \<and>
   \<not> handleSkipUnchanged baseInputs ''B'' (Some (c_body (stickyComment blockBody))) \<and>
   appendRequested baseInputs appendOn \<and>
   str_includes blockBody AUTO_COMMENT_START \<and> str_includes blockBody AUTO_COMMENT_END \<and>
   ensureComment id baseInputs (stickyWith blockBody) ''B'' appendOn =
     Inr (UpdateBody ''c1'' (bodyWithHeader (''A'' @ ''\<newline>'' @ ''B'') []),
          [CoreSetOutput ''previous_comment_id'' (Some ''c1'')])"
proof -
  have h: "''B'' \<noteq> [] \<and>
           previousOf baseInputs (stickyWith blockBody) = Some (stickyComment blockBody) \<and>
           cid (stickyComment blockBody) \<noteq> [] \<and>
           \<not> handleSkipUnchanged baseInputs ''B'' (Some (c_body (stickyComment blockBody))) \<and>
           appendRequested baseInputs appendOn"
    by code_simp
  have e1: "str_includes blockBody AUTO_COMMENT_START" by code_simp
  have e2: "str_includes blockBody AUTO_COMMENT_END" by code_simp
  have e3: "\<not> shouldHideDetails baseInputs appendOn" by code_simp
  have e4: "bodyWithoutHeader blockBody [] = ''A''" by code_simp
  have e5: "header baseInputs = []" by code_simp
  have e6: "cid (stickyComment blockBody) = ''c1''" by code_simp
  have e7: "c_body (stickyComment blockBody) = blockBody" by code_simp
  have e8: "blockBody \<noteq> []" by code_simp
  have c: "ensureComment id baseInputs (stickyWith blockBody) ''B'' appendOn =
             Inr (UpdateBody ''c1'' (bodyWithHeader (''A'' @ ''\<newline>'' @ ''B'') []),
                  [CoreSetOutput ''previous_comment_id'' (Some ''c1'')])"
    using ensureComment_append_trigger
            [of "''B''" baseInputs "stickyWith blockBody" "stickyComment blockBody" appendOn
                id] h
    by (simp add: e1 e2 e3 e4 e5 e6 e7 e8 Let_def del: append.simps)
  from h e1 e2 c show ?thesis by simp
qed

section \<open>Skipping an unchanged comment\<close>

text \<open>
  C2 at the body \<open>B\<close> followed by a line feed, with \<open>skip_unchanged\<close> on: the first call
  writes the wrapped body, GitHub stores it, and the second call with the same body
  writes again, because \<open>commentsEqual\<close> compares the body as it is with the trimmed inner
  content of the stored comment.
\<close>

theorem skip_unchanged_writes_twice:
  "skipUnchanged baseInputs \<and>
   ensureComment id baseInputs (stickyWith (bodyWithHeader ''A'' [])) ''B\<newline>'' None =
     Inr (UpdateBody ''c1'' (bodyWithHeader ''B\<newline>'' []),
          [CoreSetOutput ''previous_comment_id'' (Some ''c1'')]) \<and>
   applyWrite 7 (UpdateBody ''c1'' (bodyWithHeader ''B\<newline>'' []))
       (stickyWith (bodyWithHeader ''A'' [])) = stickyWith (bodyWithHeader ''B\<newline>'' []) \<and>
   \<not> commentsEqual ''B\<newline>'' (Some (bodyWithHeader ''B\<newline>'' [])) [] \<and>
   ensureComment id baseInputs (stickyWith (bodyWithHeader ''B\<newline>'' [])) ''B\<newline>'' None =
     Inr (UpdateBody ''c1'' (bodyWithHeader ''B\<newline>'' []),
          [CoreSetOutput ''previous_comment_id'' (Some ''c1'')])"
  apply (intro conjI)
      apply code_simp
     apply code_simp
    apply (simp add: applyWrite_def stickyWith_def stickyComment_def fun_eq_iff)
   apply code_simp
  apply code_simp
  done

lemma trim_between_newlines:
  "trim (''\<newline>'' @ body @ ''\<newline>'') = trim body"
proof -
  have sp: "isSpace (CHR ''\<newline>'')" by (simp add: isSpace_def)
  have "dropWhile isSpace (''\<newline>'' @ body @ ''\<newline>'') = dropWhile isSpace (body @ ''\<newline>'')"
    using sp by simp
  moreover have "rev (dropWhile isSpace (rev (dropWhile isSpace (body @ ''\<newline>''))))
        = rev (dropWhile isSpace (rev (dropWhile isSpace body)))"
  proof (cases "\<forall>c\<in>set body. isSpace c")
    case True
    then have a: "dropWhile isSpace body = []" by (simp add: dropWhile_eq_Nil_conv)
    from True have b: "dropWhile isSpace (body @ ''\<newline>'') = []"
      using sp by (simp add: dropWhile_eq_Nil_conv)
    show ?thesis unfolding a b by simp
  next
    case False
    then have "dropWhile isSpace (body @ ''\<newline>'') = dropWhile isSpace body @ ''\<newline>''"
      by (auto simp: dropWhile_append)
    then show ?thesis using sp by simp
  qed
  ultimately show ?thesis by (simp add: trim_def)
qed

text \<open>
  Where the skip does hold: a body that \<open>trim\<close> leaves as it is and that does not hold
  both markers equals, for \<open>commentsEqual\<close>, the comment that wraps it (the closing
  marker being found at its place), so a second call with it writes nothing.
\<close>

lemma skip_unchanged_after_replace:
  "trim body = body \<and>
   (indexOf body (autoStart h) = None \<or> indexOf body (autoEnd h) = None) \<and>
   indexOf (bodyWithHeader body h) (autoEnd h) = Some (length (autoStart h) + length body + 2) \<longrightarrow>
     commentsEqual body (Some (bodyWithHeader body h)) h"
proof (intro impI, elim conjE)
  assume t: "trim body = body"
    and n: "indexOf body (autoStart h) = None \<or> indexOf body (autoEnd h) = None"
    and e: "indexOf (bodyWithHeader body h) (autoEnd h) = Some (length (autoStart h) + length body + 2)"
  have s: "indexOf (bodyWithHeader body h) (autoStart h) = Some 0"
    unfolding bodyWithHeader_def by (rule indexOf_prefix)
  have sub: "substring (bodyWithHeader body h) (0 + length (autoStart h))
               (length (autoStart h) + length body + 2) = ''\<newline>'' @ body @ ''\<newline>''"
    by (simp add: substring_def bodyWithHeader_def Let_def min_def max_def)
  from n have nb: "(case (indexOf body (autoStart h), indexOf body (autoEnd h)) of
                      (Some i, Some j) \<Rightarrow> trim (substring body (i + length (autoStart h)) j)
                    | _ \<Rightarrow> body) = body"
    by (auto split: option.splits)
  show "commentsEqual body (Some (bodyWithHeader body h)) h"
    unfolding commentsEqual_def Let_def orEmpty_def
    using nb s e sub t by (simp add: trim_between_newlines del: append.simps)
qed

lemma skip_unchanged_trimmed_body:
  "ensureComment id baseInputs (stickyWith (bodyWithHeader ''A'' [])) ''B'' None =
     Inr (UpdateBody ''c1'' (bodyWithHeader ''B'' []),
          [CoreSetOutput ''previous_comment_id'' (Some ''c1'')]) \<and>
   ensureComment id baseInputs (stickyWith (bodyWithHeader ''B'' [])) ''B'' None =
     Inr (NoWrite, [CoreSetOutput ''previous_comment_id'' (Some ''c1'')])"
  by code_simp

section \<open>Properties of the deployment client\<close>

lemma aliasOutcomes_domains: "map fst (aliasOutcomes api token orgId ident ds w) = ds"
  by (induction ds arbitrary: w) auto

lemma aliasLoop_outcomes:
  "aliasLoop api token orgId ident ds canonicalSet url w =
     (if canonicalSet then url
      else (case find (\<lambda>p. snd p \<and> str_includes (fst p) ''.'')
                   (aliasOutcomes api token orgId ident ds w) of
              Some p \<Rightarrow> ''https://'' @ fst p
            | None \<Rightarrow> url),
      aliasWorld api token orgId ident ds w)"
proof (induction ds arbitrary: canonicalSet url w)
  case Nil
  then show ?case by simp
next
  case (Cons domain ds)
  show ?case
  proof (cases "postAlias api w token orgId ident domain")
    case (Pair outcome w1)
    then show ?thesis
      by (cases outcome) (simp_all add: Cons.IH del: append.simps)
  qed
qed

text \<open>
  C7. When the deployment answers with a URL and an id, there are alias candidates and
  the branch equals the trigger branch, \<open>deployToVercel\<close> requests every candidate in
  order, whether or not an earlier request was refused, and its URL is \<open>https://\<close>
  followed by the first candidate whose request the remote resolved and which contains a
  dot, or the default deployment URL when no candidate is both. \<open>outcomes\<close> are the
  candidates with the remote's answers and \<open>w2\<close> is the world after the last request.
  That URL is returned unless appending it to the file \<open>GITHUB_OUTPUT\<close> throws: it is
  returned when \<open>GITHUB_OUTPUT\<close> is not set and when appending never fails.
\<close>

theorem deployToVercel_canonical_alias:
  "readFiles api w (if o_workingDirectory options = [] then ''.'' else o_workingDirectory options)
     = Inr files \<and>
   postDeployment api w (o_token options) (o_orgId options) (deployBody options env files)
     = (Inr json, w1) \<and>
   j_url json = Some u \<and> u \<noteq> [] \<and> j_id json = Some ident \<and> ident \<noteq> [] \<and>
   allAliases api options env \<noteq> [] \<and>
   o_aliasBranch options = Some b \<and> b \<noteq> [] \<and> getBranch env = b \<and>
   outcomes = aliasOutcomes api (o_token options) (o_orgId options) ident
                (allAliases api options env) w1 \<and>
   canonical = (case find (\<lambda>p. snd p \<and> str_includes (fst p) ''.'') outcomes of
                  Some p \<Rightarrow> ''https://'' @ fst p
                | None \<Rightarrow> ''https://'' @ u) \<and>
   w2 = aliasWorld api (o_token options) (o_orgId options) ident (allAliases api options env) w1
   \<longrightarrow>
     map fst outcomes = allAliases api options env \<and>
     deployToVercel api options env w =
       (case writeOutputs api env canonical w2 of
          (Some e, w3) \<Rightarrow> (Inl e, w3)
        | (None, w3) \<Rightarrow> (Inr \<lparr>r_url = canonical, r_id = Some ident\<rparr>, w3)) \<and>
     (env ''GITHUB_OUTPUT'' = None \<longrightarrow>
        deployToVercel api options env w = (Inr \<lparr>r_url = canonical, r_id = Some ident\<rparr>, w2)) \<and>
     ((\<forall>w' path t. fst (appendFile api w' path t) = None) \<longrightarrow>
        fst (deployToVercel api options env w) = Inr \<lparr>r_url = canonical, r_id = Some ident\<rparr>)"
proof (intro impI, elim conjE)
  assume a: "readFiles api w (if o_workingDirectory options = [] then ''.''
                              else o_workingDirectory options) = Inr files"
    "postDeployment api w (o_token options) (o_orgId options) (deployBody options env files)
       = (Inr json, w1)"
    "j_url json = Some u" "u \<noteq> []" "j_id json = Some ident" "ident \<noteq> []"
    "allAliases api options env \<noteq> []" "o_aliasBranch options = Some b" "b \<noteq> []"
    "getBranch env = b"
    and o: "outcomes = aliasOutcomes api (o_token options) (o_orgId options) ident
                (allAliases api options env) w1"
    and c: "canonical = (case find (\<lambda>p. snd p \<and> str_includes (fst p) ''.'') outcomes of
                  Some p \<Rightarrow> ''https://'' @ fst p
                | None \<Rightarrow> ''https://'' @ u)"
    and w: "w2 = aliasWorld api (o_token options) (o_orgId options) ident
                   (allAliases api options env) w1"
  have l: "aliasLoop api (o_token options) (o_orgId options) ident (allAliases api options env)
             False (''https://'' @ u) w1 = (canonical, w2)"
    unfolding o c w by (simp add: aliasLoop_outcomes del: append.simps)
  have d: "deployToVercel api options env w =
       (case writeOutputs api env canonical w2 of
          (Some e, w3) \<Rightarrow> (Inl e, w3)
        | (None, w3) \<Rightarrow> (Inr \<lparr>r_url = canonical, r_id = Some ident\<rparr>, w3))"
    using a l by (simp add: deployToVercel_def Let_def truthy_def orEmpty_def del: append.simps
                  split: prod.splits option.splits)
  have n: "env ''GITHUB_OUTPUT'' = None \<longrightarrow>
        deployToVercel api options env w = (Inr \<lparr>r_url = canonical, r_id = Some ident\<rparr>, w2)"
    unfolding d by (simp add: writeOutputs_def)
  have f: "(\<forall>w' path t. fst (appendFile api w' path t) = None) \<longrightarrow>
        fst (deployToVercel api options env w) = Inr \<lparr>r_url = canonical, r_id = Some ident\<rparr>"
  proof
    assume ok: "\<forall>w' path t. fst (appendFile api w' path t) = None"
    have "fst (writeOutputs api env canonical w2) = None"
      using ok by (auto simp: writeOutputs_def split: option.splits prod.splits dest: fst_eqD
                        simp del: append.simps) (metis fst_conv option.distinct(1))+
    then show "fst (deployToVercel api options env w) =
                 Inr \<lparr>r_url = canonical, r_id = Some ident\<rparr>"
      unfolding d by (cases "writeOutputs api env canonical w2") simp
  qed
  from o d n f
  show "map fst outcomes = allAliases api options env \<and>
     deployToVercel api options env w =
       (case writeOutputs api env canonical w2 of
          (Some e, w3) \<Rightarrow> (Inl e, w3)
        | (None, w3) \<Rightarrow> (Inr \<lparr>r_url = canonical, r_id = Some ident\<rparr>, w3)) \<and>
     (env ''GITHUB_OUTPUT'' = None \<longrightarrow>
        deployToVercel api options env w = (Inr \<lparr>r_url = canonical, r_id = Some ident\<rparr>, w2)) \<and>
     ((\<forall>w' path t. fst (appendFile api w' path t) = None) \<longrightarrow>
        fst (deployToVercel api options env w) = Inr \<lparr>r_url = canonical, r_id = Some ident\<rparr>)"
    by (simp add: aliasOutcomes_domains)
qed


theorem deployToVercel_canonical_alias_witness:
  "allAliases sampleApi sampleOptions sampleEnv = [''localhost'', ''x.example.com'', ''y.example.com''] \<and>
   o_aliasBranch sampleOptions = Some ''canary'' \<and> getBranch sampleEnv = ''canary'' \<and>
   j_url sampleJson = Some ''c15t-abc.vercel.app'' \<and> j_id sampleJson = Some ''dpl_1'' \<and>
   aliasOutcomes sampleApi ''tok'' ''org'' ''dpl_1''
     [''localhost'', ''x.example.com'', ''y.example.com''] [''deploy source=cli''] =
     [(''localhost'', True), (''x.example.com'', False), (''y.example.com'', True)] \<and>
   deployToVercel sampleApi sampleOptions sampleEnv [] =
     (Inr \<lparr>r_url = ''https://y.example.com'', r_id = Some ''dpl_1''\<rparr>,
      [''deploy source=cli'', ''alias localhost'', ''alias x.example.com'',
       ''alias y.example.com'', ''append url=https://y.example.com\<newline>'',
       ''append deployment_url=https://y.example.com\<newline>''])"
proof -
  have h: "readFiles sampleApi []
             (if o_workingDirectory sampleOptions = [] then ''.'' else o_workingDirectory sampleOptions)
             = Inr [(''package.json'', ''e30='')] \<and>
           postDeployment sampleApi [] (o_token sampleOptions) (o_orgId sampleOptions)
             (deployBody sampleOptions sampleEnv [(''package.json'', ''e30='')])
             = (Inr sampleJson, [''deploy source=cli'']) \<and>
           j_url sampleJson = Some ''c15t-abc.vercel.app'' \<and> ''c15t-abc.vercel.app'' \<noteq> [] \<and>
           j_id sampleJson = Some ''dpl_1'' \<and> ''dpl_1'' \<noteq> [] \<and>
           allAliases sampleApi sampleOptions sampleEnv \<noteq> [] \<and>
           o_aliasBranch sampleOptions = Some ''canary'' \<and> ''canary'' \<noteq> [] \<and>
           getBranch sampleEnv = ''canary''"
    by code_simp
  have o: "[(''localhost'', True), (''x.example.com'', False), (''y.example.com'', True)] =
             aliasOutcomes sampleApi (o_token sampleOptions) (o_orgId sampleOptions) ''dpl_1''
               (allAliases sampleApi sampleOptions sampleEnv) [''deploy source=cli'']"
    by code_simp
  have c: "''https://y.example.com'' =
             (case find (\<lambda>p. snd p \<and> str_includes (fst p) ''.'')
                     [(''localhost'', True), (''x.example.com'', False), (''y.example.com'', True)] of
                Some p \<Rightarrow> ''https://'' @ fst p
              | None \<Rightarrow> ''https://'' @ ''c15t-abc.vercel.app'')"
    by code_simp
  have w: "[''deploy source=cli'', ''alias localhost'', ''alias x.example.com'',
            ''alias y.example.com''] =
             aliasWorld sampleApi (o_token sampleOptions) (o_orgId sampleOptions) ''dpl_1''
               (allAliases sampleApi sampleOptions sampleEnv) [''deploy source=cli'']"
    by code_simp
  have wr: "writeOutputs sampleApi sampleEnv ''https://y.example.com''
              [''deploy source=cli'', ''alias localhost'', ''alias x.example.com'',
               ''alias y.example.com''] =
            (None, [''deploy source=cli'', ''alias localhost'', ''alias x.example.com'',
                    ''alias y.example.com'', ''append url=https://y.example.com\<newline>'',
                    ''append deployment_url=https://y.example.com\<newline>''])"
    by code_simp
  have e1: "allAliases sampleApi sampleOptions sampleEnv =
              [''localhost'', ''x.example.com'', ''y.example.com'']"
    by code_simp
  have e2: "aliasOutcomes sampleApi ''tok'' ''org'' ''dpl_1''
              [''localhost'', ''x.example.com'', ''y.example.com''] [''deploy source=cli''] =
              [(''localhost'', True), (''x.example.com'', False), (''y.example.com'', True)]"
    by code_simp
  have d: "deployToVercel sampleApi sampleOptions sampleEnv [] =
             (case writeOutputs sampleApi sampleEnv ''https://y.example.com''
                     [''deploy source=cli'', ''alias localhost'', ''alias x.example.com'',
                      ''alias y.example.com''] of
                (Some e, w3) \<Rightarrow> (Inl e, w3)
              | (None, w3) \<Rightarrow> (Inr \<lparr>r_url = ''https://y.example.com'', r_id = Some ''dpl_1''\<rparr>, w3))"
    using deployToVercel_canonical_alias
            [of sampleApi "[]" sampleOptions "[(''package.json'', ''e30='')]" sampleEnv sampleJson
                "[''deploy source=cli'']" "''c15t-abc.vercel.app''" "''dpl_1''" "''canary''"
                "[(''localhost'', True), (''x.example.com'', False), (''y.example.com'', True)]"
                "''https://y.example.com''"
                "[''deploy source=cli'', ''alias localhost'', ''alias x.example.com'',
                  ''alias y.example.com'']"] h o c w
    by blast
  have r: "deployToVercel sampleApi sampleOptions sampleEnv [] =
     (Inr \<lparr>r_url = ''https://y.example.com'', r_id = Some ''dpl_1''\<rparr>,
      [''deploy source=cli'', ''alias localhost'', ''alias x.example.com'',
       ''alias y.example.com'', ''append url=https://y.example.com\<newline>'',
       ''append deployment_url=https://y.example.com\<newline>''])"
    unfolding d wr by simp
  from h e1 e2 r show ?thesis by blast
qed

section \<open>Properties of the extra metadata\<close>









section \<open>Properties of the deployment step\<close>

text \<open>
  C10. When the Vercel token, the project id or the org id is empty,
  \<open>performVercelDeployment\<close> returns \<open>undefined\<close> at once and leaves the run as it was: no
  request reaches the world (no docs setup, no deployment record, no deployment attempt)
  and no line is written, so no failure is raised either.
\<close>

theorem performVercelDeployment_skips_without_credentials:
  "vercelToken inp = [] \<or> vercelProjectId inp = [] \<or> vercelOrgId inp = [] \<longrightarrow>
     performVercelDeployment gapi vapi inp ctx r = (None, r)"
  by (simp add: performVercelDeployment_def)

theorem performVercelDeployment_skips_without_credentials_witness:
  "vercelToken (baseInputs\<lparr>vercelToken := []\<rparr>) = [] \<and>
   performVercelDeployment countingGithub countingVercel (baseInputs\<lparr>vercelToken := []\<rparr>)
     (pushTo ''refs/heads/main'') freshRun = (None, freshRun) \<and>
   vercelProjectId (baseInputs\<lparr>vercelProjectId := []\<rparr>) = [] \<and>
   performVercelDeployment countingGithub countingVercel (baseInputs\<lparr>vercelProjectId := []\<rparr>)
     (pushTo ''refs/heads/main'') freshRun = (None, freshRun) \<and>
   vercelOrgId (baseInputs\<lparr>vercelOrgId := []\<rparr>) = [] \<and>
   performVercelDeployment countingGithub countingVercel (baseInputs\<lparr>vercelOrgId := []\<rparr>)
     (pushTo ''refs/heads/main'') freshRun = (None, freshRun) \<and>
   world freshRun = 0 \<and> coreLines freshRun = []"
proof -
  have h1: "vercelToken (baseInputs\<lparr>vercelToken := []\<rparr>) = []" by simp
  have h2: "vercelProjectId (baseInputs\<lparr>vercelProjectId := []\<rparr>) = []" by simp
  have h3: "vercelOrgId (baseInputs\<lparr>vercelOrgId := []\<rparr>) = []" by simp
  have f: "world freshRun = 0 \<and> coreLines freshRun = []" by (simp add: freshRun_def)
  have c1: "performVercelDeployment countingGithub countingVercel (baseInputs\<lparr>vercelToken := []\<rparr>)
              (pushTo ''refs/heads/main'') freshRun = (None, freshRun)"
    using performVercelDeployment_skips_without_credentials
            [of "baseInputs\<lparr>vercelToken := []\<rparr>" countingGithub countingVercel
                "pushTo ''refs/heads/main''" freshRun] h1
    by blast
  have c2: "performVercelDeployment countingGithub countingVercel (baseInputs\<lparr>vercelProjectId := []\<rparr>)
              (pushTo ''refs/heads/main'') freshRun = (None, freshRun)"
    using performVercelDeployment_skips_without_credentials
            [of "baseInputs\<lparr>vercelProjectId := []\<rparr>" countingGithub countingVercel
                "pushTo ''refs/heads/main''" freshRun] h2
    by blast
  have c3: "performVercelDeployment countingGithub countingVercel (baseInputs\<lparr>vercelOrgId := []\<rparr>)
              (pushTo ''refs/heads/main'') freshRun = (None, freshRun)"
    using performVercelDeployment_skips_without_credentials
            [of "baseInputs\<lparr>vercelOrgId := []\<rparr>" countingGithub countingVercel
                "pushTo ''refs/heads/main''" freshRun] h3
    by blast
  from h1 h2 h3 f c1 c2 c3 show ?thesis by blast
qed

text \<open>
  With the three inputs set, the same run on a push to \<open>main\<close> makes seven requests and
  returns the deployment URL.
\<close>

lemma performVercelDeployment_with_credentials:
  "fst (performVercelDeployment countingGithub countingVercel baseInputs
          (pushTo ''refs/heads/main'') freshRun) = Some ''https://c15t-abc.vercel.app'' \<and>
   world (snd (performVercelDeployment countingGithub countingVercel baseInputs
          (pushTo ''refs/heads/main'') freshRun)) = 7"
  by code_simp

end
